theory Spec2Isabelle
  imports Main "HOL-Library.Word"
begin

section \<open>The dsaparam command of apps/dsaparam.c\<close>

text \<open>
  The file holds two functions, \<open>dsaparam_main\<close> and the progress callback
  \<open>gendsa_cb\<close>. Both only sequence calls into the library (option parser, BIO streams,
  EVP key contexts, encoders), so the model is a function from the results of those calls
  to the exit code and the ordered list of calls made on the outside world.
  C \<open>int\<close> values are modelled as \<open>int\<close>: the code only compares them, it never
  computes with them.
\<close>

subsection \<open>Data\<close>

text \<open>The two formats that \<open>opt_format\<close> can deliver under \<open>OPT_FMT_PEMDER\<close>.\<close>

datatype format = FORMAT_PEM | FORMAT_ASN1

text \<open>
  What \<open>opt_next\<close> returns, together with the argument \<open>opt_arg\<close> would give for it.
  \<open>OPT_EOF\<close> is the end of the list. \<open>OPT_R_CASES\<close> and \<open>OPT_PROV_CASES\<close> stand for
  the option groups of \<open>OPT_R_ENUM\<close> and \<open>OPT_PROV_ENUM\<close>.
\<close>

datatype OPTION_CHOICE =
    OPT_ERR
  | OPT_HELP
  | OPT_INFORM string
  | OPT_OUTFORM string
  | OPT_IN string
  | OPT_OUT string
  | OPT_TEXT
  | OPT_C
  | OPT_NOOUT
  | OPT_GENKEY
  | OPT_ENGINE string
  | OPT_VERBOSE
  | OPT_R_CASES string
  | OPT_PROV_CASES string

text \<open>
  The four streams of the program: the global \<open>bio_err\<close> and \<open>bio_out\<close>, and the locals
  \<open>in\<close> and \<open>out\<close> of \<open>dsaparam_main\<close> (\<open>in\<close> is a keyword here, hence the suffix).
\<close>

datatype bio = bio_err | bio_out | in_bio | out_bio

text \<open>DSA domain parameters and a key over them (the contents of an \<open>EVP_PKEY\<close>).\<close>

record dsa_params =
  dsa_p :: nat
  dsa_q :: nat
  dsa_g :: nat

record dsa_key =
  key_params :: dsa_params
  priv_key :: nat
  pub_key :: nat

text \<open>The part of an \<open>EVP_PKEY_CTX\<close> that \<open>gendsa_cb\<close> reads.\<close>

record EVP_PKEY_CTX =
  app_data :: bio
  keygen_info :: int

datatype arg = I int | S string

text \<open>
  One constructor per library call that touches a stream, the generator or the key
  deriver. \<open>Ev_print_bignum_var_overflow\<close> is a call of \<open>print_bignum_var\<close> whose number
  does not fit the buffer it is given. The \<open>end:\<close> block of \<open>dsaparam_main\<close> only
  releases resources and is not recorded.
\<close>

datatype event =
    Ev_printf bio string "arg list"
  | Ev_write bio string
  | Ev_flush bio
  | Ev_print_errors bio
  | Ev_opt_help
  | Ev_setup_engine string
  | Ev_bio_open_default "string option" format
  | Ev_bio_open_owner "string option" format bool
  | Ev_paramgen_init
  | Ev_set_dsa_paramgen_bits int
  | Ev_paramgen
  | Ev_d2i_KeyParams_bio bio
  | Ev_PEM_read_bio_Parameters bio
  | Ev_print_params bio dsa_params
  | Ev_print_bignum_var bio string int "8 word list"
  | Ev_print_bignum_var_overflow bio string int
  | Ev_i2d_KeyParams_bio bio dsa_params
  | Ev_PEM_write_bio_Parameters bio dsa_params
  | Ev_keygen_init
  | Ev_keygen
  | Ev_i2d_PrivateKey_bio bio "dsa_key option"
  | Ev_PEM_write_bio_PrivateKey bio "dsa_key option"

text \<open>
  The results of the library calls, as parameters of the run. A pointer result is an
  option (\<open>None\<close> is \<open>NULL\<close>), an \<open>int\<close> status is kept as an \<open>int\<close> because the code tests
  some with \<open>\<le> 0\<close> and others with \<open>!\<close>. \<open>EVP_PKEY_paramgen\<close> gives the progress
  signals it hands to the callback, its status and the parameters it stores.
\<close>

record env =
  opt_prog :: string
  opt_format :: "string \<Rightarrow> format option"
  opt_int :: "string \<Rightarrow> int option"
  opt_rand :: "string \<Rightarrow> bool"
  opt_provider :: "string \<Rightarrow> bool"
  OPENSSL_DSA_MAX_MODULUS_BITS :: int
  bio_open_default :: "string option \<Rightarrow> format \<Rightarrow> bool"
  bio_open_owner :: "string option \<Rightarrow> format \<Rightarrow> bool \<Rightarrow> bool"
  EVP_PKEY_CTX_new_from_name :: bool
  EVP_PKEY_paramgen_init :: int
  EVP_PKEY_CTX_set_dsa_paramgen_bits :: "int \<Rightarrow> int"
  EVP_PKEY_paramgen :: "int \<Rightarrow> int list \<times> int \<times> dsa_params option"
  d2i_KeyParams_bio :: "dsa_params option"
  PEM_read_bio_Parameters :: "dsa_params option"
  EVP_PKEY_print_params :: "dsa_params \<Rightarrow> int"
  i2d_KeyParams_bio :: "dsa_params \<Rightarrow> int"
  PEM_write_bio_Parameters :: "dsa_params \<Rightarrow> int"
  EVP_PKEY_CTX_new :: "dsa_params \<Rightarrow> bool"
  EVP_PKEY_keygen_init :: "dsa_params \<Rightarrow> int"
  EVP_PKEY_keygen :: "dsa_params \<Rightarrow> int \<times> dsa_key option"
  i2d_PrivateKey_bio :: "dsa_key option \<Rightarrow> int"
  PEM_write_bio_PrivateKey :: "dsa_key option \<Rightarrow> int"

text \<open>The variables of \<open>dsaparam_main\<close> that the option loop sets, and the static \<open>verbose\<close>.\<close>

record locals =
  informat :: format
  outformat :: format
  infile :: "string option"
  outfile :: "string option"
  text_flag :: bool
  C_flag :: bool
  genkey :: bool
  noout :: bool
  verbose :: bool

definition init_locals :: locals where
  "init_locals = \<lparr> informat = FORMAT_PEM, outformat = FORMAT_PEM, infile = None,
     outfile = None, text_flag = False, C_flag = False, genkey = False, noout = False,
     verbose = False \<rparr>"

text \<open>A stage either jumps to \<open>end\<close> with the current \<open>ret\<close> or goes on with a value.\<close>

datatype 'a step = Goto_end int | Next_stage 'a

definition emit :: "event list \<Rightarrow> event list \<times> 'a \<Rightarrow> event list \<times> 'a" where
  "emit es r = (es @ fst r, snd r)"

subsection \<open>gendsa_cb (lines 291-308)\<close>

definition symbols :: string where
  "symbols = [CHR ''.'', CHR ''+'', CHR ''*'', CHR 0x0A]"

definition gendsa_cb :: "bool \<Rightarrow> EVP_PKEY_CTX \<Rightarrow> int \<times> event list" where
  "gendsa_cb vb ctx =
     (if \<not> vb then (1, [])
      else
        let b = app_data ctx;
            p = keygen_info ctx;
            c = (if p \<ge> 0 \<and> nat p < length symbols then symbols ! nat p else CHR ''?'')
        in (1, [Ev_write b [c], Ev_flush b]))"

subsection \<open>dsaparam_main: the option loop (lines 78-131)\<close>

text \<open>The statements under the label \<open>opthelp\<close>.\<close>

definition opthelp :: "env \<Rightarrow> event list \<times> locals step" where
  "opthelp E =
     ([Ev_printf bio_err ''%s: Use -help for summary.\<newline>'' [S (opt_prog E)]], Goto_end 1)"

fun opt_loop :: "env \<Rightarrow> OPTION_CHOICE list \<Rightarrow> locals \<Rightarrow> event list \<times> locals step" where
  "opt_loop E [] L = ([], Next_stage L)"
| "opt_loop E (OPT_ERR # os) L = opthelp E"
| "opt_loop E (OPT_HELP # os) L = ([Ev_opt_help], Goto_end 0)"
| "opt_loop E (OPT_INFORM a # os) L =
     (case opt_format E a of
        None \<Rightarrow> opthelp E
      | Some f \<Rightarrow> opt_loop E os (L\<lparr>informat := f\<rparr>))"
| "opt_loop E (OPT_IN a # os) L = opt_loop E os (L\<lparr>infile := Some a\<rparr>)"
| "opt_loop E (OPT_OUTFORM a # os) L =
     (case opt_format E a of
        None \<Rightarrow> opthelp E
      | Some f \<Rightarrow> opt_loop E os (L\<lparr>outformat := f\<rparr>))"
| "opt_loop E (OPT_OUT a # os) L = opt_loop E os (L\<lparr>outfile := Some a\<rparr>)"
| "opt_loop E (OPT_ENGINE a # os) L = emit [Ev_setup_engine a] (opt_loop E os L)"
| "opt_loop E (OPT_TEXT # os) L = opt_loop E os (L\<lparr>text_flag := True\<rparr>)"
| "opt_loop E (OPT_C # os) L = opt_loop E os (L\<lparr>C_flag := True\<rparr>)"
| "opt_loop E (OPT_GENKEY # os) L = opt_loop E os (L\<lparr>genkey := True\<rparr>)"
| "opt_loop E (OPT_R_CASES a # os) L =
     (if \<not> opt_rand E a then ([], Goto_end 1) else opt_loop E os L)"
| "opt_loop E (OPT_PROV_CASES a # os) L =
     (if \<not> opt_provider E a then ([], Goto_end 1) else opt_loop E os L)"
| "opt_loop E (OPT_NOOUT # os) L = opt_loop E os (L\<lparr>noout := True\<rparr>)"
| "opt_loop E (OPT_VERBOSE # os) L = opt_loop E os (L\<lparr>verbose := True\<rparr>)"

subsection \<open>The positional argument (lines 132-140)\<close>

text \<open>
  The result is the pair \<open>(num, numbits)\<close>; \<open>None\<close> is the jump to \<open>end\<close>. Only a rest of
  exactly one argument is looked at.
\<close>

definition positional :: "env \<Rightarrow> string list \<Rightarrow> (int \<times> int) option" where
  "positional E rest =
     (if length rest = 1 then
        (case opt_int E (rest ! 0) of
           None \<Rightarrow> None
         | Some num \<Rightarrow> if num < 0 then None else Some (num, num))
      else Some (0, -1))"

subsection \<open>Parameter resolution (lines 157-197)\<close>

text \<open>
  \<open>EVP_PKEY_paramgen\<close> calls the callback installed by \<open>EVP_PKEY_CTX_set_cb\<close> once per
  progress signal, on a context whose application data is \<open>bio_err\<close> (line 165).
\<close>

definition run_callbacks :: "bool \<Rightarrow> int list \<Rightarrow> event list" where
  "run_callbacks vb sigs =
     concat (map (\<lambda>p. snd (gendsa_cb vb \<lparr>app_data = bio_err, keygen_info = p\<rparr>)) sigs)"

definition generate :: "env \<Rightarrow> locals \<Rightarrow> int \<Rightarrow> int \<Rightarrow> event list \<times> dsa_params option step" where
  "generate E L num numbits =
     emit (if numbits > OPENSSL_DSA_MAX_MODULUS_BITS E
           then [Ev_printf bio_err
                   (''Warning: It is not recommended to use more than %d bit for DSA keys.\<newline>'' @
                    ''         Your key size is %d! Larger key size may behave not as expected.\<newline>'')
                   [I (OPENSSL_DSA_MAX_MODULUS_BITS E), I numbits]]
           else [])
    (emit (if verbose L
           then [Ev_printf bio_err ''Generating DSA parameters, %d bit long prime\<newline>'' [I num],
                 Ev_printf bio_err ''This could take some time\<newline>'' []]
           else [])
    (emit [Ev_paramgen_init]
      (if EVP_PKEY_paramgen_init E \<le> 0 then
         ([Ev_print_errors bio_err,
           Ev_printf bio_err ''Error, DSA key generation paramgen init failed\<newline>'' []],
          Goto_end 1)
       else emit [Ev_set_dsa_paramgen_bits num]
      (if EVP_PKEY_CTX_set_dsa_paramgen_bits E num = 0 then
         ([Ev_print_errors bio_err,
           Ev_printf bio_err ''Error, DSA key generation setting bit length failed\<newline>'' []],
          Goto_end 1)
       else emit (Ev_paramgen # run_callbacks (verbose L) (fst (EVP_PKEY_paramgen E num)))
      (if fst (snd (EVP_PKEY_paramgen E num)) \<le> 0 then
         ([Ev_print_errors bio_err,
           Ev_printf bio_err ''Error, DSA key generation failed\<newline>'' []],
          Goto_end 1)
       else ([], Next_stage (snd (snd (EVP_PKEY_paramgen E num)))))))))"

definition resolve :: "env \<Rightarrow> locals \<Rightarrow> int \<Rightarrow> int \<Rightarrow> event list \<times> dsa_params option step" where
  "resolve E L num numbits =
     (if numbits > 0 then generate E L num numbits
      else if informat L = FORMAT_ASN1 then
        ([Ev_d2i_KeyParams_bio in_bio], Next_stage (d2i_KeyParams_bio E))
      else
        ([Ev_PEM_read_bio_Parameters in_bio], Next_stage (PEM_read_bio_Parameters E)))"

subsection \<open>Bignum helpers of the library\<close>

text \<open>
  Modelled from the spec: \<open>BN_num_bits\<close>, \<open>BN_bn2bin\<close>, \<open>BN_bin2bn\<close> and
  \<open>print_bignum_var\<close> are not in \<open>apps/dsaparam.c\<close>. The spec says that the
  function name carries "the bit length of p" and that the "byte arrays are encoded from
  the big-endian minimal representation of each value"; \<open>BN_bin2bn\<close> is the decoder
  that the emitted fragment itself calls on each array. A bignum is a \<open>nat\<close>, an
  \<open>unsigned char\<close> an \<open>8 word\<close>. \<open>print_bignum_var\<close> stores the bytes of the number in
  the buffer of its last argument before it prints them, so it is given the size of that
  buffer here: a number with more bytes than the buffer holds overruns it, and from then
  on the behaviour of the C program is undefined. The model records the overrun in place
  of the array and goes on with the calls that the control flow prescribes.
\<close>

function BN_num_bits :: "nat \<Rightarrow> nat" where
  "BN_num_bits n = (if n = 0 then 0 else Suc (BN_num_bits (n div 2)))"
  by pat_completeness auto
termination
  by (relation "measure id") auto

function BN_bn2bin :: "nat \<Rightarrow> 8 word list" where
  "BN_bn2bin n = (if n = 0 then [] else BN_bn2bin (n div 256) @ [of_nat (n mod 256)])"
  by pat_completeness auto
termination
  by (relation "measure id") auto

declare BN_num_bits.simps [simp del] BN_bn2bin.simps [simp del]

definition BN_bin2bn :: "8 word list \<Rightarrow> nat" where
  "BN_bin2bn bs = foldl (\<lambda>a b. a * 256 + unat b) 0 bs"

definition BN_num_bytes :: "nat \<Rightarrow> nat" where
  "BN_num_bytes n = (BN_num_bits n + 7) div 8"

definition print_bignum_var :: "bio \<Rightarrow> nat \<Rightarrow> string \<Rightarrow> int \<Rightarrow> nat \<Rightarrow> event list" where
  "print_bignum_var b bn var len buffer_size =
     (if length (BN_bn2bin bn) \<le> buffer_size
      then [Ev_print_bignum_var b var len (BN_bn2bin bn)]
      else [Ev_print_bignum_var_overflow b var len])"

subsection \<open>Rendering (lines 199-254)\<close>

text \<open>
  The block under \<open>if (C)\<close> (lines 203-239). It reads \<open>p\<close>, \<open>q\<close> and \<open>g\<close> from
  \<open>params\<close> and nothing else, whatever else the key object holds. \<open>data\<close> is the size of
  the buffer of line 214, \<open>BN_num_bytes(p) + 20\<close> bytes, which the three calls of
  \<open>print_bignum_var\<close> share: it is sized from \<open>p\<close> alone.
\<close>

definition render_C :: "'a dsa_params_scheme \<Rightarrow> event list" where
  "render_C params =
     (let p = dsa_p params; q = dsa_q params; g = dsa_g params;
          len = BN_num_bytes p;
          bits_p = int (BN_num_bits p);
          data = len + 20
      in [Ev_printf bio_out ''static DSA *get_dsa%d(void)\<newline>{\<newline>'' [I bits_p]] @
         print_bignum_var bio_out p ''dsap'' bits_p data @
         print_bignum_var bio_out q ''dsaq'' bits_p data @
         print_bignum_var bio_out g ''dsag'' bits_p data @
         [Ev_printf bio_out
            (''    DSA *dsa = DSA_new();\<newline>'' @
             ''    BIGNUM *p, *q, *g;\<newline>'' @
             ''\<newline>'') [],
          Ev_printf bio_out
            (''    if (dsa == NULL)\<newline>'' @
             ''        return NULL;\<newline>'') [],
          Ev_printf bio_out
            ''    if (!DSA_set0_pqg(dsa, p = BN_bin2bn(dsap_%d, sizeof(dsap_%d), NULL),\<newline>''
            [I bits_p, I bits_p],
          Ev_printf bio_out
            ''                           q = BN_bin2bn(dsaq_%d, sizeof(dsaq_%d), NULL),\<newline>''
            [I bits_p, I bits_p],
          Ev_printf bio_out
            ''                           g = BN_bin2bn(dsag_%d, sizeof(dsag_%d), NULL))) {\<newline>''
            [I bits_p, I bits_p],
          Ev_printf bio_out
            (''        DSA_free(dsa);\<newline>'' @
             ''        BN_free(p);\<newline>'' @
             ''        BN_free(q);\<newline>'' @
             ''        BN_free(g);\<newline>'' @
             ''        return NULL;\<newline>'' @
             ''    }\<newline>'' @
             ''    return dsa;\<newline>}\<newline>'') []])"

text \<open>Lines 241-242: the value of \<open>noout\<close> after the DER and genkey override.\<close>

definition noout_final :: "locals \<Rightarrow> bool" where
  "noout_final L = (if outformat L = FORMAT_ASN1 \<and> genkey L then True else noout L)"

definition write_params :: "env \<Rightarrow> locals \<Rightarrow> dsa_params \<Rightarrow> event list \<times> unit step" where
  "write_params E L params =
     (if \<not> noout_final L then
        emit [if outformat L = FORMAT_ASN1 then Ev_i2d_KeyParams_bio out_bio params
              else Ev_PEM_write_bio_Parameters out_bio params]
          (if (if outformat L = FORMAT_ASN1 then i2d_KeyParams_bio E params
               else PEM_write_bio_Parameters E params) = 0
           then ([Ev_printf bio_err ''unable to write DSA parameters\<newline>'' [],
                  Ev_print_errors bio_err], Goto_end 1)
           else ([], Next_stage ()))
      else ([], Next_stage ()))"

definition render :: "env \<Rightarrow> locals \<Rightarrow> dsa_params \<Rightarrow> event list \<times> unit step" where
  "render E L params =
     emit (if text_flag L then [Ev_print_params out_bio params] else [])
    (emit (if C_flag L then render_C params else [])
    (write_params E L params))"

subsection \<open>Key derivation (lines 255-279)\<close>

text \<open>
  \<open>assert(private)\<close> on line 274 holds, since \<open>private\<close> is \<open>genkey\<close> (line 141) and the
  block runs under \<open>if (genkey)\<close>. The status \<open>i\<close> of the private key write is assigned
  and not read again.
\<close>

definition derive :: "env \<Rightarrow> locals \<Rightarrow> dsa_params \<Rightarrow> event list \<times> unit step" where
  "derive E L params =
     (if genkey L then
        (if \<not> EVP_PKEY_CTX_new E params then
           ([Ev_print_errors bio_err,
             Ev_printf bio_err ''Error, DSA key generation context allocation failed\<newline>'' []],
            Goto_end 1)
         else emit [Ev_keygen_init]
        (if EVP_PKEY_keygen_init E params = 0 then
           ([Ev_printf bio_err ''unable to initialise for key generation\<newline>'' [],
             Ev_print_errors bio_err], Goto_end 1)
         else emit [Ev_keygen]
        (if fst (EVP_PKEY_keygen E params) = 0 then
           ([Ev_printf bio_err ''unable to generate key\<newline>'' [],
             Ev_print_errors bio_err], Goto_end 1)
         else
           ([if outformat L = FORMAT_ASN1
             then Ev_i2d_PrivateKey_bio out_bio (snd (EVP_PKEY_keygen E params))
             else Ev_PEM_write_bio_PrivateKey out_bio (snd (EVP_PKEY_keygen E params))],
            Next_stage ()))))
      else ([], Next_stage ()))"

subsection \<open>dsaparam_main (lines 66-289)\<close>

definition and_then ::
  "event list \<times> 'a step \<Rightarrow> ('a \<Rightarrow> event list \<times> 'b step) \<Rightarrow> event list \<times> 'b step" where
  "and_then m f =
     (case snd m of
        Goto_end r \<Rightarrow> (fst m, Goto_end r)
      | Next_stage x \<Rightarrow> emit (fst m) (f x))"

text \<open>Lines 193-197: the \<open>NULL\<close> test on \<open>params\<close> after either source.\<close>

definition check_params :: "dsa_params option \<Rightarrow> event list \<times> dsa_params step" where
  "check_params ps =
     (case ps of
        None \<Rightarrow> ([Ev_printf bio_err ''unable to load DSA parameters\<newline>'' [],
                  Ev_print_errors bio_err], Goto_end 1)
      | Some params \<Rightarrow> ([], Next_stage params))"

text \<open>Lines 141-279, from \<open>private = genkey ? 1 : 0\<close> to the last statement before \<open>ret = 0\<close>.\<close>

definition stages :: "env \<Rightarrow> locals \<Rightarrow> int \<Rightarrow> int \<Rightarrow> event list \<times> unit step" where
  "stages E L num numbits =
     (let private = genkey L in
      emit [Ev_bio_open_default (infile L) (informat L)]
     (if \<not> bio_open_default E (infile L) (informat L) then ([], Goto_end 1)
      else emit [Ev_bio_open_owner (outfile L) (outformat L) private]
     (if \<not> bio_open_owner E (outfile L) (outformat L) private then ([], Goto_end 1)
      else if \<not> EVP_PKEY_CTX_new_from_name E then
        ([Ev_print_errors bio_err,
          Ev_printf bio_err ''Error, DSA parameter generation context allocation failed\<newline>'' []],
         Goto_end 1)
      else
        and_then (and_then (resolve E L num numbits) check_params)
          (\<lambda>params. and_then (render E L params) (\<lambda>_. derive E L params)))))"

text \<open>The exit code \<open>ret\<close> and the calls made, in order.\<close>

definition dsaparam_main :: "env \<Rightarrow> OPTION_CHOICE list \<Rightarrow> string list \<Rightarrow> int \<times> event list" where
  "dsaparam_main E opts rest =
     (case opt_loop E opts init_locals of
        (t0, Goto_end ret) \<Rightarrow> (ret, t0)
      | (t0, Next_stage L) \<Rightarrow>
          (case positional E rest of
             None \<Rightarrow> (1, t0)
           | Some (num, numbits) \<Rightarrow>
               (case stages E L num numbits of
                  (t1, Goto_end ret) \<Rightarrow> (ret, t0 @ t1)
                | (t1, Next_stage _) \<Rightarrow> (0, t0 @ t1))))"

subsection \<open>Reading a trace\<close>

text \<open>Calls into the parameter generator.\<close>

fun is_generator_call :: "event \<Rightarrow> bool" where
  "is_generator_call Ev_paramgen_init = True"
| "is_generator_call (Ev_set_dsa_paramgen_bits n) = True"
| "is_generator_call Ev_paramgen = True"
| "is_generator_call _ = False"

text \<open>Calls that read and decode a stream.\<close>

fun is_input_read :: "event \<Rightarrow> bool" where
  "is_input_read (Ev_d2i_KeyParams_bio b) = True"
| "is_input_read (Ev_PEM_read_bio_Parameters b) = True"
| "is_input_read _ = False"

text \<open>Calls that serialise one record (parameters or a private key) onto a stream.\<close>

fun is_record_write :: "event \<Rightarrow> bool" where
  "is_record_write (Ev_i2d_KeyParams_bio b ps) = True"
| "is_record_write (Ev_PEM_write_bio_Parameters b ps) = True"
| "is_record_write (Ev_i2d_PrivateKey_bio b k) = True"
| "is_record_write (Ev_PEM_write_bio_PrivateKey b k) = True"
| "is_record_write _ = False"

text \<open>The stream a call puts bytes on, if it does.\<close>

fun written_to :: "event \<Rightarrow> bio option" where
  "written_to (Ev_printf b f as) = Some b"
| "written_to (Ev_write b cs) = Some b"
| "written_to (Ev_print_errors b) = Some b"
| "written_to (Ev_print_params b ps) = Some b"
| "written_to (Ev_print_bignum_var b var len bs) = Some b"
| "written_to (Ev_print_bignum_var_overflow b var len) = Some b"
| "written_to (Ev_i2d_KeyParams_bio b ps) = Some b"
| "written_to (Ev_PEM_write_bio_Parameters b ps) = Some b"
| "written_to (Ev_i2d_PrivateKey_bio b k) = Some b"
| "written_to (Ev_PEM_write_bio_PrivateKey b k) = Some b"
| "written_to _ = None"

definition writes_on :: "bio \<Rightarrow> event \<Rightarrow> bool" where
  "writes_on b e = (written_to e = Some b)"

text \<open>
  The renderings of the parameters and of the key: everything written that is not a
  diagnostic on \<open>bio_err\<close>.
\<close>

definition is_rendering :: "event \<Rightarrow> bool" where
  "is_rendering e = (written_to e = Some bio_out \<or> written_to e = Some out_bio)"




text \<open>
  A diagnostic: a message printed on \<open>bio_err\<close> and the library's error text
  (\<open>ERR_print_errors\<close>), in either order, as the last two calls of a run.
\<close>

fun is_err_printf :: "event \<Rightarrow> bool" where
  "is_err_printf (Ev_printf b f as) = (b = bio_err)"
| "is_err_printf _ = False"

definition is_diagnostic_pair :: "event \<Rightarrow> event \<Rightarrow> bool" where
  "is_diagnostic_pair a b =
     ((is_err_printf a \<and> b = Ev_print_errors bio_err) \<or>
      (a = Ev_print_errors bio_err \<and> is_err_printf b))"

definition ends_with_diagnostic :: "event list \<Rightarrow> bool" where
  "ends_with_diagnostic tr =
     (case rev tr of b # a # t \<Rightarrow> is_diagnostic_pair a b | _ \<Rightarrow> False)"

subsection \<open>Results of the library calls that the claims speak about\<close>

text \<open>The pointer that \<open>params\<close> holds when line 193 tests it, provided the run gets there.\<close>

definition params_source :: "env \<Rightarrow> locals \<Rightarrow> int \<Rightarrow> int \<Rightarrow> dsa_params option" where
  "params_source E L num numbits =
     (if numbits > 0 then snd (snd (EVP_PKEY_paramgen E num))
      else if informat L = FORMAT_ASN1 then d2i_KeyParams_bio E
      else PEM_read_bio_Parameters E)"

text \<open>The status of the encoder that lines 245-248 select.\<close>

definition params_write_status :: "env \<Rightarrow> locals \<Rightarrow> dsa_params \<Rightarrow> int" where
  "params_write_status E L params =
     (if outformat L = FORMAT_ASN1 then i2d_KeyParams_bio E params
      else PEM_write_bio_Parameters E params)"

text \<open>The status of the encoder that lines 275-278 select.\<close>

definition key_write_status :: "env \<Rightarrow> locals \<Rightarrow> dsa_key option \<Rightarrow> int" where
  "key_write_status E L k =
     (if outformat L = FORMAT_ASN1 then i2d_PrivateKey_bio E k
      else PEM_write_bio_PrivateKey E k)"

text \<open>Both streams opened and the generation context allocated (lines 143-156).\<close>

definition streams_and_ctx :: "env \<Rightarrow> locals \<Rightarrow> bool" where
  "streams_and_ctx E L =
     (bio_open_default E (infile L) (informat L) \<and>
      bio_open_owner E (outfile L) (outformat L) (genkey L) \<and>
      EVP_PKEY_CTX_new_from_name E)"

text \<open>
  The spec's notion of full success, in its own words: "every requested stage (parameter
  resolution, each requested rendering, and, when requested, key derivation and
  private-key serialization) succeeded", each library call succeeding by its own
  convention (status \<open>1\<close>, or a pointer that is not \<open>NULL\<close>).
\<close>

definition requested_stages_succeed :: "env \<Rightarrow> locals \<Rightarrow> int \<Rightarrow> int \<Rightarrow> bool" where
  "requested_stages_succeed E L num numbits =
     (streams_and_ctx E L \<and>
      (numbits > 0 \<longrightarrow>
         EVP_PKEY_paramgen_init E = 1 \<and>
         EVP_PKEY_CTX_set_dsa_paramgen_bits E num = 1 \<and>
         fst (snd (EVP_PKEY_paramgen E num)) = 1) \<and>
      (case params_source E L num numbits of
         None \<Rightarrow> False
       | Some params \<Rightarrow>
           (text_flag L \<longrightarrow> EVP_PKEY_print_params E params = 1) \<and>
           (\<not> noout_final L \<longrightarrow> params_write_status E L params = 1) \<and>
           (genkey L \<longrightarrow>
              EVP_PKEY_CTX_new E params \<and>
              EVP_PKEY_keygen_init E params = 1 \<and>
              fst (EVP_PKEY_keygen E params) = 1 \<and>
              snd (EVP_PKEY_keygen E params) \<noteq> None \<and>
              key_write_status E L (snd (EVP_PKEY_keygen E params)) = 1)))"

text \<open>What the code itself tests on the way to \<open>ret = 0\<close>.\<close>

definition checks_passed :: "env \<Rightarrow> locals \<Rightarrow> int \<Rightarrow> int \<Rightarrow> bool" where
  "checks_passed E L num numbits =
     (streams_and_ctx E L \<and>
      (numbits > 0 \<longrightarrow>
         EVP_PKEY_paramgen_init E > 0 \<and>
         EVP_PKEY_CTX_set_dsa_paramgen_bits E num \<noteq> 0 \<and>
         fst (snd (EVP_PKEY_paramgen E num)) > 0) \<and>
      (case params_source E L num numbits of
         None \<Rightarrow> False
       | Some params \<Rightarrow>
           (\<not> noout_final L \<longrightarrow> params_write_status E L params \<noteq> 0) \<and>
           (genkey L \<longrightarrow>
              EVP_PKEY_CTX_new E params \<and>
              EVP_PKEY_keygen_init E params \<noteq> 0 \<and>
              fst (EVP_PKEY_keygen E params) \<noteq> 0)))"

subsection \<open>A concrete environment\<close>

text \<open>
  A toy parameter set (\<open>p = 23\<close>, \<open>q = 11\<close>, \<open>g = 4\<close>) and a library in which every
  call succeeds; the generator reports five progress signals.
\<close>

definition toy_params :: dsa_params where
  "toy_params = \<lparr> dsa_p = 23, dsa_q = 11, dsa_g = 4 \<rparr>"

definition toy_key :: dsa_key where
  "toy_key = \<lparr> key_params = toy_params, priv_key = 3, pub_key = 18 \<rparr>"

definition env_ok :: env where
  "env_ok = \<lparr>
     opt_prog = ''dsaparam'',
     opt_format = (\<lambda>a. if a = ''PEM'' then Some FORMAT_PEM
                        else if a = ''DER'' then Some FORMAT_ASN1 else None),
     opt_int = (\<lambda>a. if a = ''0'' then Some 0
                     else if a = ''512'' then Some 512
                     else if a = ''20000'' then Some 20000 else None),
     opt_rand = (\<lambda>a. True),
     opt_provider = (\<lambda>a. True),
     OPENSSL_DSA_MAX_MODULUS_BITS = 10000,
     bio_open_default = (\<lambda>f fmt. True),
     bio_open_owner = (\<lambda>f fmt priv. True),
     EVP_PKEY_CTX_new_from_name = True,
     EVP_PKEY_paramgen_init = 1,
     EVP_PKEY_CTX_set_dsa_paramgen_bits = (\<lambda>n. 1),
     EVP_PKEY_paramgen = (\<lambda>n. ([0, 1, 2, 3, 7], 1, Some toy_params)),
     d2i_KeyParams_bio = Some toy_params,
     PEM_read_bio_Parameters = Some toy_params,
     EVP_PKEY_print_params = (\<lambda>ps. 1),
     i2d_KeyParams_bio = (\<lambda>ps. 1),
     PEM_write_bio_Parameters = (\<lambda>ps. 1),
     EVP_PKEY_CTX_new = (\<lambda>ps. True),
     EVP_PKEY_keygen_init = (\<lambda>ps. 1),
     EVP_PKEY_keygen = (\<lambda>ps. (1, Some toy_key)),
     i2d_PrivateKey_bio = (\<lambda>k. 1),
     PEM_write_bio_PrivateKey = (\<lambda>k. 1) \<rparr>"

text \<open>The same library with an input stream that does not decode.\<close>

definition env_bad_input :: env where
  "env_bad_input = env_ok\<lparr> d2i_KeyParams_bio := None, PEM_read_bio_Parameters := None \<rparr>"

text \<open>
  The same library with an input that decodes to \<open>p = 23\<close>, \<open>q = 11\<close> and a \<open>g\<close> of 101
  bytes; the decoders do not compare \<open>g\<close> with \<open>p\<close>.
\<close>

definition long_g_params :: dsa_params where
  "long_g_params = \<lparr> dsa_p = 23, dsa_q = 11, dsa_g = 2 ^ 800 + 5 \<rparr>"

definition env_long_g :: env where
  "env_long_g = env_ok\<lparr> d2i_KeyParams_bio := Some long_g_params,
                         PEM_read_bio_Parameters := Some long_g_params \<rparr>"

text \<open>The same library with a text dump that reports failure.\<close>

definition env_text_fails :: env where
  "env_text_fails = env_ok\<lparr> EVP_PKEY_print_params := (\<lambda>ps. 0) \<rparr>"

text \<open>The same library with private key encoders that report failure.\<close>

definition env_key_write_fails :: env where
  "env_key_write_fails =
     env_ok\<lparr> i2d_PrivateKey_bio := (\<lambda>k. 0), PEM_write_bio_PrivateKey := (\<lambda>k. 0) \<rparr>"

section \<open>Lemmas about the stages\<close>


lemma fst_emit [simp]: "fst (emit es r) = es @ fst r"
  by (simp add: emit_def)

lemma snd_emit [simp]: "snd (emit es r) = snd r"
  by (simp add: emit_def)

lemma fst_and_then:
  "fst (and_then m f) = fst m @ (case snd m of Goto_end r \<Rightarrow> [] | Next_stage x \<Rightarrow> fst (f x))"
  by (simp add: and_then_def split: step.splits)

lemma snd_and_then:
  "snd (and_then m f) = (case snd m of Goto_end r \<Rightarrow> Goto_end r | Next_stage x \<Rightarrow> snd (f x))"
  by (simp add: and_then_def split: step.splits)

lemma opt_loop_events:
  "e \<in> set (fst (opt_loop E os L)) \<Longrightarrow>
     (\<exists>a. e = Ev_setup_engine a) \<or> e = Ev_opt_help \<or> (\<exists>f as. e = Ev_printf bio_err f as)"
  by (induction E os L rule: opt_loop.induct) (auto simp: opthelp_def split: option.splits if_splits)

lemma opt_loop_filter:
  assumes "\<And>a. \<not> P (Ev_setup_engine a)" "\<not> P Ev_opt_help" "\<And>f as. \<not> P (Ev_printf bio_err f as)"
  shows "filter P (fst (opt_loop E os L)) = []"
  using assms opt_loop_events by (fastforce simp: filter_empty_conv)

lemma main_unfold:
  assumes "opt_loop E opts init_locals = (t0, Next_stage L)"
      and "positional E rest = Some (num, numbits)"
  shows "dsaparam_main E opts rest =
           ((case snd (stages E L num numbits) of Goto_end r \<Rightarrow> r | Next_stage u \<Rightarrow> 0),
            t0 @ fst (stages E L num numbits))"
  using assms by (simp add: dsaparam_main_def split: prod.splits step.splits)



lemma stages_reached:
  "streams_and_ctx E L \<Longrightarrow>
   stages E L num numbits =
     emit [Ev_bio_open_default (infile L) (informat L),
           Ev_bio_open_owner (outfile L) (outformat L) (genkey L)]
       (and_then (and_then (resolve E L num numbits) check_params)
          (\<lambda>params. and_then (render E L params) (\<lambda>_. derive E L params)))"
  by (simp add: stages_def streams_and_ctx_def emit_def)

lemma stages_not_reached:
  "\<not> streams_and_ctx E L \<Longrightarrow>
   snd (stages E L num numbits) = Goto_end 1 \<and>
   (\<forall>e \<in> set (fst (stages E L num numbits)).
      (\<exists>f fmt. e = Ev_bio_open_default f fmt) \<or> (\<exists>f fmt p. e = Ev_bio_open_owner f fmt p) \<or>
      e = Ev_print_errors bio_err \<or> (\<exists>f as. e = Ev_printf bio_err f as))"
  by (auto simp: stages_def streams_and_ctx_def Let_def)

lemma run_callbacks_events: "e \<in> set (run_callbacks vb sigs) \<Longrightarrow> written_to e = Some bio_err \<or> e = Ev_flush bio_err"
  by (auto simp: run_callbacks_def gendsa_cb_def Let_def split: if_splits)

lemma generate_events:
  "e \<in> set (fst (generate E L num numbits)) \<Longrightarrow>
     written_to e = Some bio_err \<or> e = Ev_flush bio_err \<or> e = Ev_paramgen_init \<or>
     e = Ev_set_dsa_paramgen_bits num \<or> e = Ev_paramgen"
  using run_callbacks_events [of e "verbose L" "fst (EVP_PKEY_paramgen E num)"]
  by (auto simp: generate_def split: if_splits)

lemma is_input_read_quiet: "is_input_read e \<Longrightarrow> written_to e = None \<and> \<not> is_generator_call e"
  by (cases e) auto

lemma is_generator_call_quiet: "is_generator_call e \<Longrightarrow> written_to e = None"
  by (cases e) auto

lemma generate_no_read: "filter is_input_read (fst (generate E L num numbits)) = []"
  unfolding filter_empty_conv
proof
  fix e assume "e \<in> set (fst (generate E L num numbits))"
  from generate_events [OF this] show "\<not> is_input_read e" by (auto dest: is_input_read_quiet)
qed

lemma resolve_load:
  "\<not> numbits > 0 \<Longrightarrow>
   resolve E L num numbits =
     ([if informat L = FORMAT_ASN1 then Ev_d2i_KeyParams_bio in_bio
       else Ev_PEM_read_bio_Parameters in_bio],
      Next_stage (params_source E L num numbits))"
  by (simp add: resolve_def params_source_def)

lemma resolve_generate: "numbits > 0 \<Longrightarrow> resolve E L num numbits = generate E L num numbits"
  by (simp add: resolve_def)

lemma check_params_events:
  "e \<in> set (fst (check_params ps)) \<Longrightarrow> written_to e = Some bio_err"
  by (auto simp: check_params_def split: option.splits)

lemma render_C_events: "e \<in> set (render_C params) \<Longrightarrow> written_to e = Some bio_out"
  by (auto simp: render_C_def print_bignum_var_def Let_def split: if_splits)

lemma write_params_events:
  "e \<in> set (fst (write_params E L params)) \<Longrightarrow>
     written_to e = Some bio_err \<or> written_to e = Some out_bio"
  by (auto simp: write_params_def split: if_splits)

lemma render_events:
  "e \<in> set (fst (render E L params)) \<Longrightarrow> written_to e \<noteq> None"
  using render_C_events write_params_events
  by (fastforce simp: render_def split: if_splits)

lemma derive_events:
  "e \<in> set (fst (derive E L params)) \<Longrightarrow>
     written_to e \<noteq> None \<or> e = Ev_keygen_init \<or> e = Ev_keygen"
  by (auto simp: derive_def split: if_splits)

lemma after_resolve_events:
  "e \<in> set (fst (and_then (render E L params) (\<lambda>_. derive E L params))) \<Longrightarrow>
     written_to e \<noteq> None \<or> e = Ev_keygen_init \<or> e = Ev_keygen"
  using render_events derive_events
  by (fastforce simp: fst_and_then split: step.splits)


lemma positional_bits: "positional E rest = Some (num, numbits) \<Longrightarrow> numbits > 0 \<Longrightarrow> num = numbits"
  by (auto simp: positional_def split: if_splits option.splits)

lemma positional_single:
  "opt_int E a = Some n \<Longrightarrow> 0 \<le> n \<Longrightarrow> positional E [a] = Some (n, n)"
  by (simp add: positional_def)

lemma filter_generate_calls:
  "filter is_generator_call (fst (generate E L num numbits)) =
     Ev_paramgen_init #
       (if EVP_PKEY_paramgen_init E \<le> 0 then []
        else Ev_set_dsa_paramgen_bits num #
          (if EVP_PKEY_CTX_set_dsa_paramgen_bits E num = 0 then [] else [Ev_paramgen]))"
proof -
  have "filter is_generator_call (run_callbacks vb sigs) = []" for vb sigs
    unfolding filter_empty_conv by (fastforce dest: run_callbacks_events is_generator_call_quiet)
  then show ?thesis by (simp add: generate_def)
qed

lemma tail_quiet:
  assumes "e \<in> set (fst (and_then (check_params ps)
             (\<lambda>params. and_then (render E L params) (\<lambda>_. derive E L params))))"
  shows "written_to e \<noteq> None \<or> e = Ev_keygen_init \<or> e = Ev_keygen"
  using assms check_params_events after_resolve_events
  by (fastforce simp: fst_and_then split: step.splits)

lemma and_then_assoc:
  "and_then (and_then m f) g = and_then m (\<lambda>x. and_then (f x) g)"
  by (cases m) (auto simp: and_then_def emit_def split: step.splits)

lemma fst_stages_reached:
  assumes "streams_and_ctx E L"
  shows "fst (stages E L num numbits) =
           [Ev_bio_open_default (infile L) (informat L),
            Ev_bio_open_owner (outfile L) (outformat L) (genkey L)] @
           fst (resolve E L num numbits) @
           (case snd (resolve E L num numbits) of
              Goto_end r \<Rightarrow> []
            | Next_stage ps \<Rightarrow>
                fst (and_then (check_params ps)
                  (\<lambda>params. and_then (render E L params) (\<lambda>_. derive E L params))))"
  by (simp add: stages_reached [OF assms] and_then_assoc fst_and_then [of "resolve E L num numbits"])

lemma filter_stages_reached:
  assumes "streams_and_ctx E L"
      and "\<And>e. P e \<Longrightarrow> written_to e = None"
      and "\<not> P Ev_keygen_init" "\<not> P Ev_keygen"
      and "\<And>f fmt. \<not> P (Ev_bio_open_default f fmt)" "\<And>f fmt p. \<not> P (Ev_bio_open_owner f fmt p)"
  shows "filter P (fst (stages E L num numbits)) = filter P (fst (resolve E L num numbits))"
proof -
  have "filter P (fst (and_then (check_params ps)
          (\<lambda>params. and_then (render E L params) (\<lambda>_. derive E L params)))) = []" for ps
    unfolding filter_empty_conv using tail_quiet assms(2-4) by fastforce
  then show ?thesis
    by (simp add: fst_stages_reached [OF assms(1)] assms(5,6) split: step.splits)
qed

lemma filter_stages_not_reached:
  assumes "\<not> streams_and_ctx E L"
      and "\<And>e. P e \<Longrightarrow> written_to e = None"
      and "\<And>f fmt. \<not> P (Ev_bio_open_default f fmt)" "\<And>f fmt p. \<not> P (Ev_bio_open_owner f fmt p)"
  shows "filter P (fst (stages E L num numbits)) = []"
  unfolding filter_empty_conv using stages_not_reached [OF assms(1)] assms(2-4) by fastforce

lemma stages_starts:
  "\<exists>t. fst (stages E L num numbits) = Ev_bio_open_default (infile L) (informat L) # t"
  by (simp add: stages_def Let_def)

lemma filter_read_stages:
  "filter is_input_read (fst (stages E L num numbits)) =
     (if streams_and_ctx E L \<and> \<not> numbits > 0
      then [if informat L = FORMAT_ASN1 then Ev_d2i_KeyParams_bio in_bio
            else Ev_PEM_read_bio_Parameters in_bio]
      else [])"
proof (cases "streams_and_ctx E L")
  case True
  have "filter is_input_read (fst (stages E L num numbits)) =
          filter is_input_read (fst (resolve E L num numbits))"
    by (rule filter_stages_reached [OF True]) (auto dest: is_input_read_quiet)
  then show ?thesis using True
    by (cases "numbits > 0") (simp_all add: resolve_load resolve_generate generate_no_read)
next
  case False
  have "filter is_input_read (fst (stages E L num numbits)) = []"
    by (rule filter_stages_not_reached [OF False]) (auto dest: is_input_read_quiet)
  then show ?thesis using False by simp
qed

lemma filter_generator_stages:
  "filter is_generator_call (fst (stages E L num numbits)) =
     (if streams_and_ctx E L \<and> numbits > 0
      then filter is_generator_call (fst (generate E L num numbits))
      else [])"
proof (cases "streams_and_ctx E L")
  case True
  have "filter is_generator_call (fst (stages E L num numbits)) =
          filter is_generator_call (fst (resolve E L num numbits))"
    by (rule filter_stages_reached [OF True]) (auto dest: is_generator_call_quiet)
  then show ?thesis using True
    by (cases "numbits > 0") (simp_all add: resolve_load resolve_generate)
next
  case False
  have "filter is_generator_call (fst (stages E L num numbits)) = []"
    by (rule filter_stages_not_reached [OF False]) (auto dest: is_generator_call_quiet)
  then show ?thesis using False by simp
qed

lemma opt_loop_no_read: "filter is_input_read (fst (opt_loop E os L)) = []"
  by (rule opt_loop_filter) auto

lemma opt_loop_no_generator: "filter is_generator_call (fst (opt_loop E os L)) = []"
  by (rule opt_loop_filter) auto

lemmas run_defs = dsaparam_main_def init_locals_def positional_def stages_def emit_def
  and_then_def resolve_def generate_def check_params_def render_def write_params_def
  noout_final_def derive_def run_callbacks_def gendsa_cb_def

lemma opts_in: "opt_loop env_ok [OPT_IN ''dsa.pem''] init_locals =
         ([], Next_stage (init_locals\<lparr>infile := Some ''dsa.pem''\<rparr>))"
  by simp

lemma env_ok_reach: "streams_and_ctx env_ok L"
  by (simp add: streams_and_ctx_def env_ok_def)

lemma snd_generate:
  "snd (generate E L num numbits) =
     (if EVP_PKEY_paramgen_init E \<le> 0 \<or> EVP_PKEY_CTX_set_dsa_paramgen_bits E num = 0 \<or>
         fst (snd (EVP_PKEY_paramgen E num)) \<le> 0
      then Goto_end 1 else Next_stage (snd (snd (EVP_PKEY_paramgen E num))))"
  by (simp add: generate_def)

lemma snd_resolve:
  "snd (resolve E L num numbits) =
     (if numbits > 0 \<and>
         (EVP_PKEY_paramgen_init E \<le> 0 \<or> EVP_PKEY_CTX_set_dsa_paramgen_bits E num = 0 \<or>
          fst (snd (EVP_PKEY_paramgen E num)) \<le> 0)
      then Goto_end 1 else Next_stage (params_source E L num numbits))"
  by (simp add: resolve_def snd_generate params_source_def)

lemma snd_check_params:
  "snd (check_params ps) = (case ps of None \<Rightarrow> Goto_end 1 | Some params \<Rightarrow> Next_stage params)"
  by (simp add: check_params_def split: option.splits)

lemma snd_render:
  "snd (render E L params) =
     (if \<not> noout_final L \<and> params_write_status E L params = 0 then Goto_end 1
      else Next_stage ())"
  by (simp add: render_def write_params_def params_write_status_def)

lemma snd_derive:
  "snd (derive E L params) =
     (if genkey L \<and> (\<not> EVP_PKEY_CTX_new E params \<or> EVP_PKEY_keygen_init E params = 0 \<or>
                       fst (EVP_PKEY_keygen E params) = 0)
      then Goto_end 1 else Next_stage ())"
  by (simp add: derive_def)

lemma snd_stages:
  "snd (stages E L num numbits) =
     (if checks_passed E L num numbits then Next_stage () else Goto_end 1)"
proof (cases "streams_and_ctx E L")
  case True
  show ?thesis
    by (auto simp: stages_reached [OF True] snd_and_then snd_resolve snd_check_params
        snd_render snd_derive checks_passed_def True not_le split: option.splits)
next
  case False
  then show ?thesis
    using stages_not_reached [OF False] by (simp add: checks_passed_def)
qed

lemma exit_code:
  assumes "opt_loop E opts init_locals = (t0, Next_stage L)"
      and "positional E rest = Some (num, numbits)"
  shows "fst (dsaparam_main E opts rest) = (if checks_passed E L num numbits then 0 else 1)"
  by (simp add: main_unfold [OF assms] snd_stages)

lemma fst_stages_resolved:
  assumes "streams_and_ctx E L"
      and "snd (resolve E L num numbits) = Next_stage (Some params)"
  shows "fst (stages E L num numbits) =
           [Ev_bio_open_default (infile L) (informat L),
            Ev_bio_open_owner (outfile L) (outformat L) (genkey L)] @
           fst (resolve E L num numbits) @
           fst (render E L params) @
           (case snd (render E L params) of
              Goto_end r \<Rightarrow> []
            | Next_stage u \<Rightarrow> fst (derive E L params))"
  by (simp add: fst_stages_reached [OF assms(1)] assms(2) fst_and_then check_params_def)

lemma fst_stages_unresolved:
  assumes "streams_and_ctx E L"
      and "snd (resolve E L num numbits) = Next_stage None"
  shows "fst (stages E L num numbits) =
           [Ev_bio_open_default (infile L) (informat L),
            Ev_bio_open_owner (outfile L) (outformat L) (genkey L)] @
           fst (resolve E L num numbits) @
           [Ev_printf bio_err ''unable to load DSA parameters\<newline>'' [],
            Ev_print_errors bio_err]"
  by (simp add: fst_stages_reached [OF assms(1)] assms(2) fst_and_then check_params_def)

lemma stages_no_output:
  assumes "params_source E L num numbits = None"
      and "b = out_bio \<or> b = bio_out"
  shows "filter (writes_on b) (fst (stages E L num numbits)) = []"
proof (cases "streams_and_ctx E L")
  case True
  have g: "filter (writes_on b) (fst (resolve E L num numbits)) = []"
    unfolding filter_empty_conv
  proof
    fix e assume e: "e \<in> set (fst (resolve E L num numbits))"
    show "\<not> writes_on b e"
    proof (cases "numbits > 0")
      case True
      with e generate_events [of e E L num numbits] assms(2) show ?thesis
        by (auto simp: resolve_generate writes_on_def)
    next
      case False
      with e assms(2) show ?thesis
        by (auto simp: resolve_load writes_on_def split: if_splits)
    qed
  qed
  show ?thesis
  proof (cases "snd (resolve E L num numbits)")
    case (Goto_end r)
    then show ?thesis using g assms(2)
      by (auto simp: fst_stages_reached [OF True] writes_on_def)
  next
    case (Next_stage ps)
    then have "ps = None" using assms(1) by (simp add: snd_resolve split: if_splits)
    with Next_stage show ?thesis using g assms(2)
      by (auto simp: fst_stages_unresolved [OF True] writes_on_def)
  qed
next
  case False
  show ?thesis
    unfolding filter_empty_conv using stages_not_reached [OF False] assms(2)
    by (fastforce simp: writes_on_def)
qed

lemma opt_loop_no_output:
  "b \<noteq> bio_err \<Longrightarrow> filter (writes_on b) (fst (opt_loop E os L)) = []"
  by (rule opt_loop_filter) (auto simp: writes_on_def)

lemma opt_loop_cong:
  assumes "opt_prog E' = opt_prog E" "opt_format E' = opt_format E"
      and "opt_rand E' = opt_rand E" "opt_provider E' = opt_provider E"
  shows "opt_loop E' os L = opt_loop E os L"
  using assms
  by (induction E os L rule: opt_loop.induct) (simp_all add: opthelp_def split: option.splits)

lemma generate_warning:
  assumes "numbits > OPENSSL_DSA_MAX_MODULUS_BITS E"
  shows "generate E L num numbits =
           emit [Ev_printf bio_err
                   (''Warning: It is not recommended to use more than %d bit for DSA keys.\<newline>'' @
                    ''         Your key size is %d! Larger key size may behave not as expected.\<newline>'')
                   [I (OPENSSL_DSA_MAX_MODULUS_BITS E), I numbits]]
             (generate (E\<lparr>OPENSSL_DSA_MAX_MODULUS_BITS := numbits\<rparr>) L num numbits)"
  using assms by (simp add: generate_def emit_def)

lemma generate_starts: "Ev_paramgen_init \<in> set (fst (generate E L num numbits))"
  by (simp add: generate_def)

lemma max_bits_elsewhere:
  "render (E\<lparr>OPENSSL_DSA_MAX_MODULUS_BITS := m\<rparr>) L params = render E L params"
  "derive (E\<lparr>OPENSSL_DSA_MAX_MODULUS_BITS := m\<rparr>) L params = derive E L params"
  "streams_and_ctx (E\<lparr>OPENSSL_DSA_MAX_MODULUS_BITS := m\<rparr>) L = streams_and_ctx E L"
  "positional (E\<lparr>OPENSSL_DSA_MAX_MODULUS_BITS := m\<rparr>) rest = positional E rest"
  by (simp_all add: render_def write_params_def derive_def streams_and_ctx_def positional_def)

lemma max_bits_opt_loop:
  "opt_loop (E\<lparr>OPENSSL_DSA_MAX_MODULUS_BITS := m\<rparr>) os L0 = opt_loop E os L0"
  by (rule opt_loop_cong) simp_all

lemma run_callbacks_shape:
  "e \<in> set (run_callbacks vb sigs) \<Longrightarrow> (\<exists>c. e = Ev_write bio_err c) \<or> e = Ev_flush bio_err"
  by (auto simp: run_callbacks_def gendsa_cb_def Let_def split: if_splits)

lemma generate_shape:
  "e \<in> set (fst (generate E L num numbits)) \<Longrightarrow>
     (\<exists>f as. e = Ev_printf bio_err f as) \<or> (\<exists>c. e = Ev_write bio_err c) \<or>
     e = Ev_flush bio_err \<or> e = Ev_print_errors bio_err \<or> is_generator_call e"
  using run_callbacks_shape [of e "verbose L" "fst (EVP_PKEY_paramgen E num)"]
  by (auto simp: generate_def split: if_splits)

lemma resolve_shape:
  "e \<in> set (fst (resolve E L num numbits)) \<Longrightarrow>
     (\<exists>f as. e = Ev_printf bio_err f as) \<or> (\<exists>c. e = Ev_write bio_err c) \<or>
     e = Ev_flush bio_err \<or> e = Ev_print_errors bio_err \<or> is_generator_call e \<or>
     is_input_read e"
  using generate_shape [of e E L num numbits]
  by (auto simp: resolve_def split: if_splits)

lemma filter_rendering_resolve:
  "filter is_rendering (fst (resolve E L num numbits)) = []"
  unfolding filter_empty_conv
  by (auto dest!: resolve_shape simp: is_rendering_def
      dest: is_generator_call_quiet is_input_read_quiet)

lemma filter_record_resolve:
  "filter is_record_write (fst (resolve E L num numbits)) = []"
  unfolding filter_empty_conv
proof
  fix e assume "e \<in> set (fst (resolve E L num numbits))"
  from resolve_shape [OF this] show "\<not> is_record_write e"
    by (cases e) auto
qed

lemma filter_rendering_render_C: "filter is_rendering (render_C params) = render_C params"
  unfolding filter_id_conv by (auto dest: render_C_events simp: is_rendering_def)

lemma filter_record_render_C: "filter is_record_write (render_C params) = []"
  by (simp add: render_C_def print_bignum_var_def Let_def)

lemma filter_rendering_render:
  "filter is_rendering (fst (render E L params)) =
     (if text_flag L then [Ev_print_params out_bio params] else []) @
     (if C_flag L then render_C params else []) @
     (if noout_final L then []
      else [if outformat L = FORMAT_ASN1 then Ev_i2d_KeyParams_bio out_bio params
            else Ev_PEM_write_bio_Parameters out_bio params])"
  by (simp add: render_def write_params_def filter_rendering_render_C is_rendering_def)

lemma filter_record_render:
  "filter is_record_write (fst (render E L params)) =
     (if noout_final L then []
      else [if outformat L = FORMAT_ASN1 then Ev_i2d_KeyParams_bio out_bio params
            else Ev_PEM_write_bio_Parameters out_bio params])"
  by (simp add: render_def write_params_def filter_record_render_C)

lemma filter_rendering_derive:
  "filter is_rendering (fst (derive E L params)) =
     (if genkey L \<and> snd (derive E L params) = Next_stage ()
      then [if outformat L = FORMAT_ASN1
            then Ev_i2d_PrivateKey_bio out_bio (snd (EVP_PKEY_keygen E params))
            else Ev_PEM_write_bio_PrivateKey out_bio (snd (EVP_PKEY_keygen E params))]
      else [])"
  by (simp add: derive_def is_rendering_def)

lemma filter_record_derive:
  "filter is_record_write (fst (derive E L params)) =
     (if genkey L \<and> snd (derive E L params) = Next_stage ()
      then [if outformat L = FORMAT_ASN1
            then Ev_i2d_PrivateKey_bio out_bio (snd (EVP_PKEY_keygen E params))
            else Ev_PEM_write_bio_PrivateKey out_bio (snd (EVP_PKEY_keygen E params))]
      else [])"
  by (simp add: derive_def)

lemma opt_loop_no_rendering: "filter is_rendering (fst (opt_loop E os L)) = []"
  by (rule opt_loop_filter) (auto simp: is_rendering_def)

lemma opt_loop_no_record: "filter is_record_write (fst (opt_loop E os L)) = []"
  by (rule opt_loop_filter) auto

lemma snd_stages_resolved:
  assumes "streams_and_ctx E L"
      and "snd (resolve E L num numbits) = Next_stage (Some params)"
  shows "snd (stages E L num numbits) =
           (case snd (render E L params) of
              Goto_end r \<Rightarrow> Goto_end r
            | Next_stage u \<Rightarrow> snd (derive E L params))"
  by (simp add: stages_reached [OF assms(1)] snd_and_then assms(2) snd_check_params)

lemma key_written_iff:
  assumes "opt_loop E opts init_locals = (t0, Next_stage L)"
      and "positional E rest = Some (num, numbits)"
      and "streams_and_ctx E L"
      and "snd (resolve E L num numbits) = Next_stage (Some params)"
  shows "fst (dsaparam_main E opts rest) = 0 \<longleftrightarrow>
           snd (render E L params) = Next_stage () \<and> snd (derive E L params) = Next_stage ()"
  by (simp add: main_unfold [OF assms(1,2)] snd_stages_resolved [OF assms(3,4)]
      snd_render snd_derive)

lemma ends_append: "ends_with_diagnostic ys \<Longrightarrow> ends_with_diagnostic (xs @ ys)"
  by (auto simp: ends_with_diagnostic_def split: list.splits)

lemma ends_pair [simp]: "ends_with_diagnostic [a, b] = is_diagnostic_pair a b"
  by (simp add: ends_with_diagnostic_def)

lemma ends_append_iff:
  assumes "2 \<le> length ys"
  shows "ends_with_diagnostic (xs @ ys) = ends_with_diagnostic ys"
proof -
  from assms obtain b a t where "rev ys = b # a # t"
    by (cases "rev ys"; cases "tl (rev ys)")
       (auto simp: Suc_le_eq dest: arg_cong [where f = length])
  then show ?thesis by (simp add: ends_with_diagnostic_def)
qed

lemma ends_Cons: "2 \<le> length xs \<Longrightarrow> ends_with_diagnostic (x # xs) = ends_with_diagnostic xs"
  using ends_append_iff [of xs "[x]"] by simp

lemma generate_loud:
  "snd (generate E L num numbits) = Goto_end r \<Longrightarrow>
   ends_with_diagnostic (fst (generate E L num numbits))"
  by (auto simp: generate_def is_diagnostic_pair_def ends_Cons ends_append_iff split: if_splits)

lemma resolve_loud:
  "snd (resolve E L num numbits) = Goto_end r \<Longrightarrow>
   ends_with_diagnostic (fst (resolve E L num numbits))"
  using generate_loud [of E L num numbits r]
  by (auto simp: resolve_def split: if_splits)

lemma check_params_loud:
  "snd (check_params ps) = Goto_end r \<Longrightarrow> ends_with_diagnostic (fst (check_params ps))"
  by (auto simp: check_params_def is_diagnostic_pair_def split: option.splits)

lemma render_loud:
  "snd (render E L params) = Goto_end r \<Longrightarrow> ends_with_diagnostic (fst (render E L params))"
  by (auto simp: render_def write_params_def is_diagnostic_pair_def ends_append_iff ends_Cons
      split: if_splits)

lemma derive_loud:
  "snd (derive E L params) = Goto_end r \<Longrightarrow> ends_with_diagnostic (fst (derive E L params))"
  by (auto simp: derive_def is_diagnostic_pair_def ends_Cons split: if_splits)

lemma and_then_loud:
  assumes "\<And>r. snd m = Goto_end r \<Longrightarrow> ends_with_diagnostic (fst m)"
      and "\<And>x r. snd m = Next_stage x \<Longrightarrow> snd (f x) = Goto_end r \<Longrightarrow>
             ends_with_diagnostic (fst (f x))"
      and "snd (and_then m f) = Goto_end r"
  shows "ends_with_diagnostic (fst (and_then m f))"
  using assms
  by (cases "snd m") (auto simp: fst_and_then snd_and_then intro: ends_append)

lemma stages_loud:
  assumes "bio_open_default E (infile L) (informat L)"
      and "bio_open_owner E (outfile L) (outformat L) (genkey L)"
      and "snd (stages E L num numbits) = Goto_end r"
  shows "ends_with_diagnostic (fst (stages E L num numbits))"
proof (cases "EVP_PKEY_CTX_new_from_name E")
  case False
  with assms(1,2) show ?thesis
    by (simp add: stages_def Let_def is_diagnostic_pair_def ends_Cons)
next
  case True
  with assms(1,2) have reach: "streams_and_ctx E L"
    by (simp add: streams_and_ctx_def)
  let ?pipe = "and_then (and_then (resolve E L num numbits) check_params)
                 (\<lambda>params. and_then (render E L params) (\<lambda>_. derive E L params))"
  have g: "snd ?pipe = Goto_end r"
    using assms(3) by (simp add: stages_reached [OF reach])
  have "ends_with_diagnostic (fst ?pipe)"
  proof (rule and_then_loud [OF _ _ g])
    fix r' assume "snd (and_then (resolve E L num numbits) check_params) = Goto_end r'"
    then show "ends_with_diagnostic (fst (and_then (resolve E L num numbits) check_params))"
      by (rule and_then_loud [rotated 2]) (auto intro: resolve_loud check_params_loud)
  next
    fix params r'
    assume "snd (and_then (render E L params) (\<lambda>_. derive E L params)) = Goto_end r'"
    then show "ends_with_diagnostic
                 (fst (and_then (render E L params) (\<lambda>_. derive E L params)))"
      by (rule and_then_loud [rotated 2]) (auto intro: render_loud derive_loud)
  qed
  from ends_append [OF this,
      of "[Ev_bio_open_default (infile L) (informat L),
           Ev_bio_open_owner (outfile L) (outformat L) (genkey L)]"]
  show ?thesis
    by (simp add: stages_reached [OF reach])
qed

lemma text_status_unread_parts:
  "resolve (E\<lparr>EVP_PKEY_print_params := s\<rparr>) L num numbits = resolve E L num numbits"
  "render (E\<lparr>EVP_PKEY_print_params := s\<rparr>) L params = render E L params"
  "derive (E\<lparr>EVP_PKEY_print_params := s\<rparr>) L params = derive E L params"
  by (simp_all add: resolve_def generate_def render_def write_params_def derive_def)

lemma text_status_unread_stages:
  "stages (E\<lparr>EVP_PKEY_print_params := s\<rparr>) L num numbits = stages E L num numbits"
  by (simp add: stages_def Let_def text_status_unread_parts)

lemma text_status_unread:
  "dsaparam_main (E\<lparr>EVP_PKEY_print_params := s\<rparr>) opts rest = dsaparam_main E opts rest"
proof -
  have "opt_loop (E\<lparr>EVP_PKEY_print_params := s\<rparr>) opts init_locals =
        opt_loop E opts init_locals"
    by (rule opt_loop_cong) simp_all
  moreover have "positional (E\<lparr>EVP_PKEY_print_params := s\<rparr>) rest = positional E rest"
    by (simp add: positional_def)
  ultimately show ?thesis
    by (auto simp: dsaparam_main_def text_status_unread_stages
        split: prod.splits step.splits option.splits)
qed

lemma requested_implies_checked:
  "requested_stages_succeed E L num numbits \<Longrightarrow> checks_passed E L num numbits"
  by (auto simp: requested_stages_succeed_def checks_passed_def split: option.splits)

lemma private_key_write_status_unread:
  "key_write_status env_key_write_fails (init_locals\<lparr>genkey := True\<rparr>) (Some toy_key) = 0 \<and>
   dsaparam_main env_key_write_fails [OPT_GENKEY] [] =
     (0, [Ev_bio_open_default None FORMAT_PEM,
          Ev_bio_open_owner None FORMAT_PEM True,
          Ev_PEM_read_bio_Parameters in_bio,
          Ev_PEM_write_bio_Parameters out_bio toy_params,
          Ev_keygen_init,
          Ev_keygen,
          Ev_PEM_write_bio_PrivateKey out_bio (Some toy_key)])"
  by (simp add: run_defs env_key_write_fails_def env_ok_def key_write_status_def)











lemma toy_fits:
  "BN_num_bits 23 = 5" "BN_num_bytes 23 = 1"
  "BN_bn2bin 23 = [23]" "BN_bn2bin 11 = [11]" "BN_bn2bin 4 = [4]"
  by (simp_all add: BN_num_bytes_def BN_num_bits.simps BN_bn2bin.simps)

lemma render_C_toy:
  "render_C toy_params =
     Ev_printf bio_out ''static DSA *get_dsa%d(void)\<newline>{\<newline>'' [I 5] #
     Ev_print_bignum_var bio_out ''dsap'' 5 [23] #
     Ev_print_bignum_var bio_out ''dsaq'' 5 [11] #
     Ev_print_bignum_var bio_out ''dsag'' 5 [4] #
     drop 4 (render_C toy_params)"
  by (simp add: render_C_def print_bignum_var_def toy_params_def toy_fits Let_def)

lemma stages_input_unopened:
  "\<not> bio_open_default E (infile L) (informat L) \<Longrightarrow>
   stages E L num numbits = ([Ev_bio_open_default (infile L) (informat L)], Goto_end 1)"
  by (simp add: stages_def emit_def Let_def)

lemma stages_input_opened:
  "bio_open_default E (infile L) (informat L) \<Longrightarrow>
   \<exists>t. fst (stages E L num numbits) =
         Ev_bio_open_default (infile L) (informat L) #
         Ev_bio_open_owner (outfile L) (outformat L) (genkey L) # t"
  by (simp add: stages_def Let_def)


















lemmas stage_defs = init_locals_def positional_def stages_def emit_def
  and_then_def resolve_def generate_def check_params_def render_def write_params_def
  noout_final_def derive_def run_callbacks_def gendsa_cb_def

lemma env_long_g_reach: "streams_and_ctx env_long_g L"
  by (simp add: streams_and_ctx_def env_long_g_def env_ok_def)


section \<open>The claims\<close>

subsection \<open>The source of the parameters\<close>

text \<open>
  C1, as amended. For every invocation whose command line supplies both a positive
  bit-length positional argument and an input file, the run is not rejected: after the
  option loop its first call opens the named input file; if that fails the run ends there
  with exit code \<open>1\<close>, otherwise its next call opens the output stream. The input stream
  is never read, and once both streams are open and the generation context exists the
  generator is started and given that bit length.
\<close>

theorem bits_and_infile_generate:
  assumes "opt_loop E opts init_locals = (t0, Next_stage L)"
      and "infile L = Some f"
      and "opt_int E a = Some n" and "n > 0"
  shows "(\<not> bio_open_default E (Some f) (informat L) \<longrightarrow>
            dsaparam_main E opts [a] =
              (1, t0 @ [Ev_bio_open_default (Some f) (informat L)])) \<and>
         (bio_open_default E (Some f) (informat L) \<longrightarrow>
            (\<exists>t. snd (dsaparam_main E opts [a]) =
                   t0 @ Ev_bio_open_default (Some f) (informat L) #
                        Ev_bio_open_owner (outfile L) (outformat L) (genkey L) # t)) \<and>
         filter is_input_read (snd (dsaparam_main E opts [a])) = [] \<and>
         (streams_and_ctx E L \<longrightarrow>
            filter is_generator_call (snd (dsaparam_main E opts [a])) =
              Ev_paramgen_init #
                (if EVP_PKEY_paramgen_init E \<le> 0 then []
                 else Ev_set_dsa_paramgen_bits n #
                   (if EVP_PKEY_CTX_set_dsa_paramgen_bits E n = 0 then []
                    else [Ev_paramgen])))"
proof -
  have pos: "positional E [a] = Some (n, n)"
    using assms(3,4) by (simp add: positional_single)
  have t0: "fst (opt_loop E opts init_locals) = t0"
    using assms(1) by simp
  note main = main_unfold [OF assms(1) pos]
  have a: "dsaparam_main E opts [a] = (1, t0 @ [Ev_bio_open_default (Some f) (informat L)])"
    if "\<not> bio_open_default E (Some f) (informat L)"
    using that assms(2) stages_input_unopened [of E L n n] by (simp add: main)
  have b: "\<exists>t. snd (dsaparam_main E opts [a]) =
                 t0 @ Ev_bio_open_default (Some f) (informat L) #
                      Ev_bio_open_owner (outfile L) (outformat L) (genkey L) # t"
    if "bio_open_default E (Some f) (informat L)"
    using that assms(2) stages_input_opened [of E L n n] by (auto simp: main)
  have c: "filter is_input_read (snd (dsaparam_main E opts [a])) = []"
    using opt_loop_no_read [of E opts init_locals] assms(4)
    by (simp add: main t0 filter_read_stages)
  have d: "filter is_generator_call (snd (dsaparam_main E opts [a])) =
              Ev_paramgen_init #
                (if EVP_PKEY_paramgen_init E \<le> 0 then []
                 else Ev_set_dsa_paramgen_bits n #
                   (if EVP_PKEY_CTX_set_dsa_paramgen_bits E n = 0 then []
                    else [Ev_paramgen]))"
    if "streams_and_ctx E L"
    using opt_loop_no_generator [of E opts init_locals] assms(4) that
    by (simp add: main t0 filter_generator_stages filter_generate_calls)
  from a b c d show ?thesis by blast
qed

theorem bits_and_infile_generate_witness:
  "opt_loop env_ok [OPT_IN ''dsa.pem''] init_locals =
     ([], Next_stage (init_locals\<lparr>infile := Some ''dsa.pem''\<rparr>)) \<and>
   opt_int env_ok ''512'' = Some 512 \<and>
   bio_open_default env_ok (Some ''dsa.pem'') FORMAT_PEM \<and>
   streams_and_ctx env_ok (init_locals\<lparr>infile := Some ''dsa.pem''\<rparr>) \<and>
   (\<exists>t. snd (dsaparam_main env_ok [OPT_IN ''dsa.pem''] [''512'']) =
          Ev_bio_open_default (Some ''dsa.pem'') FORMAT_PEM #
          Ev_bio_open_owner None FORMAT_PEM False # t) \<and>
   filter is_input_read (snd (dsaparam_main env_ok [OPT_IN ''dsa.pem''] [''512''])) = [] \<and>
   filter is_generator_call (snd (dsaparam_main env_ok [OPT_IN ''dsa.pem''] [''512''])) =
     [Ev_paramgen_init, Ev_set_dsa_paramgen_bits 512, Ev_paramgen]"
proof -
  have i: "opt_int env_ok ''512'' = Some 512" by (simp add: env_ok_def)
  have f: "infile (init_locals\<lparr>infile := Some ''dsa.pem''\<rparr>) = Some ''dsa.pem''" by simp
  have p: "(0::int) < 512" by simp
  have b: "bio_open_default env_ok (Some ''dsa.pem'') FORMAT_PEM"
    by (simp add: env_ok_def)
  have e: "EVP_PKEY_paramgen_init env_ok = 1" "EVP_PKEY_CTX_set_dsa_paramgen_bits env_ok 512 = 1"
    by (simp_all add: env_ok_def)
  have l: "informat (init_locals\<lparr>infile := Some ''dsa.pem''\<rparr>) = FORMAT_PEM"
          "outformat (init_locals\<lparr>infile := Some ''dsa.pem''\<rparr>) = FORMAT_PEM"
          "outfile (init_locals\<lparr>infile := Some ''dsa.pem''\<rparr>) = None"
          "genkey (init_locals\<lparr>infile := Some ''dsa.pem''\<rparr>) = False"
    by (simp_all add: init_locals_def)
  from bits_and_infile_generate [OF opts_in f i p] env_ok_reach opts_in i b
  show ?thesis by (simp add: e l)
qed

text \<open>
  C1, as the spec states it, fails: with \<open>-in dsa.pem\<close> and the positional argument
  \<open>512\<close> the run opens both streams, generates and exits with \<open>0\<close>.
\<close>

theorem bits_and_infile_counterexample:
  "dsaparam_main env_ok [OPT_IN ''dsa.pem''] [''512''] =
     (0, [Ev_bio_open_default (Some ''dsa.pem'') FORMAT_PEM,
          Ev_bio_open_owner None FORMAT_PEM False,
          Ev_paramgen_init,
          Ev_set_dsa_paramgen_bits 512,
          Ev_paramgen,
          Ev_PEM_write_bio_Parameters out_bio toy_params])"
  by (simp add: run_defs env_ok_def)

text \<open>
  C4. For every run that gets past the options, the parameters come from exactly one
  source. If the bit length is positive the input stream is never read and, once the
  streams and the context exist, the generator is invoked with that bit length
  (\<open>paramgen_init\<close>, then the bit length, then \<open>paramgen\<close>, as far as each succeeds); a
  failing generator ends the run with exit code \<open>1\<close>, and otherwise the run goes on with
  the very parameters that \<open>EVP_PKEY_paramgen\<close> stored: its remaining calls and its exit
  code are those of rendering and key derivation on them. If the bit length is not
  positive the generator is never called, the input stream is decoded once, by
  \<open>d2i_KeyParams_bio\<close> when the input format is DER and by \<open>PEM_read_bio_Parameters\<close> when
  it is PEM, and the run goes on with the very parameters the decoder returned. In both
  cases a \<open>NULL\<close> result ends the run with "unable to load DSA parameters".
\<close>

theorem parameter_source_exclusive:
  assumes "opt_loop E opts init_locals = (t0, Next_stage L)"
      and "positional E rest = Some (num, numbits)"
  shows "(numbits > 0 \<longrightarrow>
            filter is_input_read (snd (dsaparam_main E opts rest)) = [] \<and>
            (streams_and_ctx E L \<longrightarrow>
               filter is_generator_call (snd (dsaparam_main E opts rest)) =
                 Ev_paramgen_init #
                   (if EVP_PKEY_paramgen_init E \<le> 0 then []
                    else Ev_set_dsa_paramgen_bits numbits #
                      (if EVP_PKEY_CTX_set_dsa_paramgen_bits E numbits = 0 then []
                       else [Ev_paramgen])) \<and>
               (if EVP_PKEY_paramgen_init E \<le> 0 \<or>
                   EVP_PKEY_CTX_set_dsa_paramgen_bits E numbits = 0 \<or>
                   fst (snd (EVP_PKEY_paramgen E numbits)) \<le> 0
                then dsaparam_main E opts rest =
                       (1, t0 @ [Ev_bio_open_default (infile L) (informat L),
                                 Ev_bio_open_owner (outfile L) (outformat L) (genkey L)] @
                           fst (generate E L numbits numbits))
                else dsaparam_main E opts rest =
                       (case snd (snd (EVP_PKEY_paramgen E numbits)) of
                          None \<Rightarrow>
                            (1, t0 @ [Ev_bio_open_default (infile L) (informat L),
                                      Ev_bio_open_owner (outfile L) (outformat L) (genkey L)] @
                                fst (generate E L numbits numbits) @
                                [Ev_printf bio_err ''unable to load DSA parameters\<newline>'' [],
                                 Ev_print_errors bio_err])
                        | Some params \<Rightarrow>
                            (case snd (and_then (render E L params) (\<lambda>_. derive E L params)) of
                               Goto_end r \<Rightarrow> r
                             | Next_stage u \<Rightarrow> 0,
                             t0 @ [Ev_bio_open_default (infile L) (informat L),
                                   Ev_bio_open_owner (outfile L) (outformat L) (genkey L)] @
                                fst (generate E L numbits numbits) @
                                fst (and_then (render E L params)
                                       (\<lambda>_. derive E L params))))))) \<and>
         (\<not> numbits > 0 \<longrightarrow>
            filter is_generator_call (snd (dsaparam_main E opts rest)) = [] \<and>
            (streams_and_ctx E L \<longrightarrow>
               filter is_input_read (snd (dsaparam_main E opts rest)) =
                 [if informat L = FORMAT_ASN1 then Ev_d2i_KeyParams_bio in_bio
                  else Ev_PEM_read_bio_Parameters in_bio] \<and>
               dsaparam_main E opts rest =
                 (case (if informat L = FORMAT_ASN1 then d2i_KeyParams_bio E
                        else PEM_read_bio_Parameters E) of
                    None \<Rightarrow>
                      (1, t0 @ [Ev_bio_open_default (infile L) (informat L),
                                Ev_bio_open_owner (outfile L) (outformat L) (genkey L),
                                if informat L = FORMAT_ASN1 then Ev_d2i_KeyParams_bio in_bio
                                else Ev_PEM_read_bio_Parameters in_bio,
                                Ev_printf bio_err ''unable to load DSA parameters\<newline>'' [],
                                Ev_print_errors bio_err])
                  | Some params \<Rightarrow>
                      (case snd (and_then (render E L params) (\<lambda>_. derive E L params)) of
                         Goto_end r \<Rightarrow> r
                       | Next_stage u \<Rightarrow> 0,
                       t0 @ [Ev_bio_open_default (infile L) (informat L),
                             Ev_bio_open_owner (outfile L) (outformat L) (genkey L),
                             if informat L = FORMAT_ASN1 then Ev_d2i_KeyParams_bio in_bio
                             else Ev_PEM_read_bio_Parameters in_bio] @
                          fst (and_then (render E L params) (\<lambda>_. derive E L params))))))"
proof -
  have t0: "fst (opt_loop E opts init_locals) = t0"
    using assms(1) by simp
  note main = main_unfold [OF assms]
  let ?post = "\<lambda>params. and_then (render E L params) (\<lambda>_. derive E L params)"
  have st: "stages E L num numbits =
              emit [Ev_bio_open_default (infile L) (informat L),
                    Ev_bio_open_owner (outfile L) (outformat L) (genkey L)]
                (and_then (resolve E L num numbits) (\<lambda>ps. and_then (check_params ps) ?post))"
    if "streams_and_ctx E L"
    by (simp add: stages_reached [OF that] and_then_assoc)
  have calls:
    "(numbits > 0 \<longrightarrow>
        filter is_input_read (snd (dsaparam_main E opts rest)) = [] \<and>
        (streams_and_ctx E L \<longrightarrow>
           filter is_generator_call (snd (dsaparam_main E opts rest)) =
             Ev_paramgen_init #
               (if EVP_PKEY_paramgen_init E \<le> 0 then []
                else Ev_set_dsa_paramgen_bits numbits #
                  (if EVP_PKEY_CTX_set_dsa_paramgen_bits E numbits = 0 then []
                   else [Ev_paramgen])))) \<and>
     (\<not> numbits > 0 \<longrightarrow>
        filter is_generator_call (snd (dsaparam_main E opts rest)) = [] \<and>
        (streams_and_ctx E L \<longrightarrow>
           filter is_input_read (snd (dsaparam_main E opts rest)) =
             [if informat L = FORMAT_ASN1 then Ev_d2i_KeyParams_bio in_bio
              else Ev_PEM_read_bio_Parameters in_bio]))"
    using opt_loop_no_read [of E opts init_locals] opt_loop_no_generator [of E opts init_locals]
      positional_bits [OF assms(2)]
    by (auto simp: main t0 filter_read_stages filter_generator_stages filter_generate_calls)
  have gen:
    "if EVP_PKEY_paramgen_init E \<le> 0 \<or>
        EVP_PKEY_CTX_set_dsa_paramgen_bits E numbits = 0 \<or>
        fst (snd (EVP_PKEY_paramgen E numbits)) \<le> 0
     then dsaparam_main E opts rest =
            (1, t0 @ [Ev_bio_open_default (infile L) (informat L),
                      Ev_bio_open_owner (outfile L) (outformat L) (genkey L)] @
                fst (generate E L numbits numbits))
     else dsaparam_main E opts rest =
            (case snd (snd (EVP_PKEY_paramgen E numbits)) of
               None \<Rightarrow>
                 (1, t0 @ [Ev_bio_open_default (infile L) (informat L),
                           Ev_bio_open_owner (outfile L) (outformat L) (genkey L)] @
                     fst (generate E L numbits numbits) @
                     [Ev_printf bio_err ''unable to load DSA parameters\<newline>'' [],
                      Ev_print_errors bio_err])
             | Some params \<Rightarrow>
                 (case snd (?post params) of Goto_end r \<Rightarrow> r | Next_stage u \<Rightarrow> 0,
                  t0 @ [Ev_bio_open_default (infile L) (informat L),
                        Ev_bio_open_owner (outfile L) (outformat L) (genkey L)] @
                     fst (generate E L numbits numbits) @ fst (?post params)))"
    if r: "streams_and_ctx E L" and g: "numbits > 0"
  proof -
    have n: "num = numbits"
      using positional_bits [OF assms(2) g] .
    have st': "stages E L numbits numbits =
              emit [Ev_bio_open_default (infile L) (informat L),
                    Ev_bio_open_owner (outfile L) (outformat L) (genkey L)]
                (and_then (generate E L numbits numbits)
                   (\<lambda>ps. and_then (check_params ps) ?post))"
      using st [OF r] n resolve_generate [OF g, of E L numbits] by simp
    show ?thesis
      by (simp add: main n st' fst_and_then snd_and_then snd_generate check_params_def
          split: option.splits)
  qed
  have load:
    "dsaparam_main E opts rest =
       (case (if informat L = FORMAT_ASN1 then d2i_KeyParams_bio E
              else PEM_read_bio_Parameters E) of
          None \<Rightarrow>
            (1, t0 @ [Ev_bio_open_default (infile L) (informat L),
                      Ev_bio_open_owner (outfile L) (outformat L) (genkey L),
                      if informat L = FORMAT_ASN1 then Ev_d2i_KeyParams_bio in_bio
                      else Ev_PEM_read_bio_Parameters in_bio,
                      Ev_printf bio_err ''unable to load DSA parameters\<newline>'' [],
                      Ev_print_errors bio_err])
        | Some params \<Rightarrow>
            (case snd (?post params) of Goto_end r \<Rightarrow> r | Next_stage u \<Rightarrow> 0,
             t0 @ [Ev_bio_open_default (infile L) (informat L),
                   Ev_bio_open_owner (outfile L) (outformat L) (genkey L),
                   if informat L = FORMAT_ASN1 then Ev_d2i_KeyParams_bio in_bio
                   else Ev_PEM_read_bio_Parameters in_bio] @
                fst (?post params)))"
    if r: "streams_and_ctx E L" and g: "\<not> numbits > 0"
    by (simp add: main st [OF r] resolve_load [OF g] params_source_def g fst_and_then
        snd_and_then check_params_def split: option.splits)
  from calls gen load show ?thesis by blast
qed

theorem parameter_source_exclusive_witness:
  "opt_loop env_long_g [] init_locals = ([], Next_stage init_locals) \<and>
   streams_and_ctx env_long_g init_locals \<and>
   positional env_long_g [''512''] = Some (512, 512) \<and>
   snd (snd (EVP_PKEY_paramgen env_long_g 512)) = Some toy_params \<and>
   dsaparam_main env_long_g [] [''512''] =
     (0, [Ev_bio_open_default None FORMAT_PEM,
          Ev_bio_open_owner None FORMAT_PEM False,
          Ev_paramgen_init,
          Ev_set_dsa_paramgen_bits 512,
          Ev_paramgen,
          Ev_PEM_write_bio_Parameters out_bio toy_params]) \<and>
   positional env_long_g [] = Some (0, -1) \<and>
   PEM_read_bio_Parameters env_long_g = Some long_g_params \<and>
   dsaparam_main env_long_g [] [] =
     (0, [Ev_bio_open_default None FORMAT_PEM,
          Ev_bio_open_owner None FORMAT_PEM False,
          Ev_PEM_read_bio_Parameters in_bio,
          Ev_PEM_write_bio_Parameters out_bio long_g_params])"
proof -
  have o: "opt_loop env_long_g [] init_locals = ([], Next_stage init_locals)"
    by simp
  have p1: "positional env_long_g [''512''] = Some (512, 512)"
    by (simp add: positional_def env_long_g_def env_ok_def)
  have p2: "positional env_long_g [] = Some (0, -1)"
    by (simp add: positional_def)
  have s: "snd (snd (EVP_PKEY_paramgen env_long_g 512)) = Some toy_params"
          "PEM_read_bio_Parameters env_long_g = Some long_g_params"
    by (simp_all add: env_long_g_def env_ok_def)
  have g: "dsaparam_main env_long_g [] [''512''] =
     (0, [Ev_bio_open_default None FORMAT_PEM,
          Ev_bio_open_owner None FORMAT_PEM False,
          Ev_paramgen_init,
          Ev_set_dsa_paramgen_bits 512,
          Ev_paramgen,
          Ev_PEM_write_bio_Parameters out_bio toy_params])"
    using parameter_source_exclusive [OF o p1] env_long_g_reach [of init_locals]
    by (simp add: stage_defs env_long_g_def env_ok_def)
  have l: "dsaparam_main env_long_g [] [] =
     (0, [Ev_bio_open_default None FORMAT_PEM,
          Ev_bio_open_owner None FORMAT_PEM False,
          Ev_PEM_read_bio_Parameters in_bio,
          Ev_PEM_write_bio_Parameters out_bio long_g_params])"
    using parameter_source_exclusive [OF o p2] env_long_g_reach [of init_locals]
    by (simp add: stage_defs env_long_g_def env_ok_def)
  from o env_long_g_reach p1 s g p2 l show ?thesis by simp
qed

text \<open>
  C10. For an invocation whose positional bit-length argument is exactly \<open>0\<close>, the
  argument is accepted (the run goes on to open the input), and the run takes the
  load-from-input path: no generator call is made, and once the streams and the context
  exist the input stream is decoded in the configured format.
\<close>

theorem zero_bits_loads_from_input:
  assumes "opt_loop E opts init_locals = (t0, Next_stage L)"
      and "opt_int E a = Some 0"
  shows "positional E [a] = Some (0, 0) \<and>
         (\<exists>t. snd (dsaparam_main E opts [a]) =
                t0 @ Ev_bio_open_default (infile L) (informat L) # t) \<and>
         filter is_generator_call (snd (dsaparam_main E opts [a])) = [] \<and>
         (streams_and_ctx E L \<longrightarrow>
            filter is_input_read (snd (dsaparam_main E opts [a])) =
              [if informat L = FORMAT_ASN1 then Ev_d2i_KeyParams_bio in_bio
               else Ev_PEM_read_bio_Parameters in_bio])"
proof -
  have pos: "positional E [a] = Some (0, 0)"
    using assms(2) by (simp add: positional_single)
  have t0: "fst (opt_loop E opts init_locals) = t0"
    using assms(1) by simp
  note main = main_unfold [OF assms(1) pos]
  show ?thesis
    using stages_starts [of E L 0 0] opt_loop_no_read [of E opts init_locals]
      opt_loop_no_generator [of E opts init_locals]
    by (simp add: pos main t0 filter_read_stages filter_generator_stages)
qed

theorem zero_bits_loads_from_input_witness:
  "opt_loop env_ok [OPT_INFORM ''DER''] init_locals =
     ([], Next_stage (init_locals\<lparr>informat := FORMAT_ASN1\<rparr>)) \<and>
   opt_int env_ok ''0'' = Some 0 \<and>
   streams_and_ctx env_ok (init_locals\<lparr>informat := FORMAT_ASN1\<rparr>) \<and>
   positional env_ok [''0''] = Some (0, 0) \<and>
   filter is_generator_call (snd (dsaparam_main env_ok [OPT_INFORM ''DER''] [''0''])) = [] \<and>
   filter is_input_read (snd (dsaparam_main env_ok [OPT_INFORM ''DER''] [''0''])) =
     [Ev_d2i_KeyParams_bio in_bio]"
proof -
  have o: "opt_loop env_ok [OPT_INFORM ''DER''] init_locals =
             ([], Next_stage (init_locals\<lparr>informat := FORMAT_ASN1\<rparr>))"
    by (simp add: env_ok_def)
  have i: "opt_int env_ok ''0'' = Some 0" by (simp add: env_ok_def)
  from zero_bits_loads_from_input [OF o i] env_ok_reach o i
  show ?thesis by simp
qed

text \<open>
  C6. For every run that loads its parameters from the input (the bit length is not
  positive), an input stream that does not decode in the configured format gives exit
  code \<open>1\<close> and nothing written to the output stream \<open>out\<close> nor to \<open>bio_out\<close>; once
  both streams and the context exist the run is exactly: open both streams, one decode
  call, the diagnostic "unable to load DSA parameters" on \<open>bio_err\<close> and the
  library's error text.
\<close>

theorem undecodable_input_fails:
  assumes "opt_loop E opts init_locals = (t0, Next_stage L)"
      and "positional E rest = Some (num, numbits)"
      and "\<not> numbits > 0"
      and "(if informat L = FORMAT_ASN1 then d2i_KeyParams_bio E
            else PEM_read_bio_Parameters E) = None"
  shows "fst (dsaparam_main E opts rest) = 1 \<and>
         filter (writes_on out_bio) (snd (dsaparam_main E opts rest)) = [] \<and>
         filter (writes_on bio_out) (snd (dsaparam_main E opts rest)) = [] \<and>
         (streams_and_ctx E L \<longrightarrow>
            snd (dsaparam_main E opts rest) =
              t0 @ [Ev_bio_open_default (infile L) (informat L),
                    Ev_bio_open_owner (outfile L) (outformat L) (genkey L),
                    if informat L = FORMAT_ASN1 then Ev_d2i_KeyParams_bio in_bio
                    else Ev_PEM_read_bio_Parameters in_bio,
                    Ev_printf bio_err ''unable to load DSA parameters\<newline>'' [],
                    Ev_print_errors bio_err])"
proof -
  have src: "params_source E L num numbits = None"
    using assms(3,4) by (simp add: params_source_def split: if_splits)
  have t0: "fst (opt_loop E opts init_locals) = t0"
    using assms(1) by simp
  have ret: "fst (dsaparam_main E opts rest) = 1"
    by (simp add: exit_code [OF assms(1,2)] checks_passed_def src)
  have res: "snd (resolve E L num numbits) = Next_stage None"
    using assms(3) src by (simp add: snd_resolve)
  have out: "filter (writes_on b) (snd (dsaparam_main E opts rest)) = []"
    if "b = out_bio \<or> b = bio_out" for b
    using that opt_loop_no_output [of b E opts init_locals] stages_no_output [OF src that]
    by (auto simp: main_unfold [OF assms(1,2)] t0)
  have tr: "snd (dsaparam_main E opts rest) =
              t0 @ [Ev_bio_open_default (infile L) (informat L),
                    Ev_bio_open_owner (outfile L) (outformat L) (genkey L),
                    if informat L = FORMAT_ASN1 then Ev_d2i_KeyParams_bio in_bio
                    else Ev_PEM_read_bio_Parameters in_bio,
                    Ev_printf bio_err ''unable to load DSA parameters\<newline>'' [],
                    Ev_print_errors bio_err]" if "streams_and_ctx E L"
    using assms(3)
    by (simp add: main_unfold [OF assms(1,2)] fst_stages_unresolved [OF that res] resolve_load)
  from ret out tr show ?thesis by simp
qed

theorem undecodable_input_fails_witness:
  "opt_loop env_bad_input [OPT_TEXT] init_locals =
     ([], Next_stage (init_locals\<lparr>text_flag := True\<rparr>)) \<and>
   positional env_bad_input [] = Some (0, -1) \<and>
   PEM_read_bio_Parameters env_bad_input = None \<and>
   streams_and_ctx env_bad_input (init_locals\<lparr>text_flag := True\<rparr>) \<and>
   fst (dsaparam_main env_bad_input [OPT_TEXT] []) = 1 \<and>
   filter (writes_on out_bio) (snd (dsaparam_main env_bad_input [OPT_TEXT] [])) = [] \<and>
   filter (writes_on bio_out) (snd (dsaparam_main env_bad_input [OPT_TEXT] [])) = [] \<and>
   snd (dsaparam_main env_bad_input [OPT_TEXT] []) =
     [Ev_bio_open_default None FORMAT_PEM,
      Ev_bio_open_owner None FORMAT_PEM False,
      Ev_PEM_read_bio_Parameters in_bio,
      Ev_printf bio_err ''unable to load DSA parameters\<newline>'' [],
      Ev_print_errors bio_err]"
proof -
  let ?L = "init_locals\<lparr>text_flag := True\<rparr>"
  have o: "opt_loop env_bad_input [OPT_TEXT] init_locals = ([], Next_stage ?L)"
    by simp
  have p: "positional env_bad_input [] = Some (0, -1)"
    by (simp add: positional_def)
  have n: "\<not> (-1::int) > 0" by simp
  have d: "(if informat ?L = FORMAT_ASN1 then d2i_KeyParams_bio env_bad_input
            else PEM_read_bio_Parameters env_bad_input) = None"
    by (simp add: env_bad_input_def)
  have r: "streams_and_ctx env_bad_input ?L"
    by (simp add: streams_and_ctx_def env_bad_input_def env_ok_def)
  have e: "PEM_read_bio_Parameters env_bad_input = None"
    by (simp add: env_bad_input_def)
  from undecodable_input_fails [OF o p n d] o p r e
  show ?thesis by (simp add: init_locals_def writes_on_def)
qed

text \<open>
  C9. For every requested bit length above \<open>OPENSSL_DSA_MAX_MODULUS_BITS\<close>, a run
  that reaches generation prints the warning on \<open>bio_err\<close> and goes on to call the
  generator; apart from the warning, its exit code and every other call are those of
  the same run under a ceiling that the bit length does not exceed, so the warning
  neither blocks nor fails the run.
\<close>

theorem ceiling_warning_non_fatal:
  assumes "opt_loop E opts init_locals = (t0, Next_stage L)"
      and "positional E rest = Some (num, numbits)"
      and "numbits > 0"
      and "numbits > OPENSSL_DSA_MAX_MODULUS_BITS E"
      and "streams_and_ctx E L"
  shows "\<exists>t1 t2.
           snd (dsaparam_main E opts rest) =
             t1 @ Ev_printf bio_err
                    (''Warning: It is not recommended to use more than %d bit for DSA keys.\<newline>'' @
                     ''         Your key size is %d! Larger key size may behave not as expected.\<newline>'')
                    [I (OPENSSL_DSA_MAX_MODULUS_BITS E), I numbits] # t2 \<and>
           Ev_paramgen_init \<in> set t2 \<and>
           dsaparam_main (E\<lparr>OPENSSL_DSA_MAX_MODULUS_BITS := numbits\<rparr>) opts rest =
             (fst (dsaparam_main E opts rest), t1 @ t2)"
proof -
  let ?E' = "E\<lparr>OPENSSL_DSA_MAX_MODULUS_BITS := numbits\<rparr>"
  let ?K = "\<lambda>ps. and_then (check_params ps)
              (\<lambda>params. and_then (render E L params) (\<lambda>_. derive E L params))"
  let ?g = "generate ?E' L num numbits"
  let ?t1 = "t0 @ [Ev_bio_open_default (infile L) (informat L),
                   Ev_bio_open_owner (outfile L) (outformat L) (genkey L)]"
  let ?t2 = "fst ?g @ (case snd ?g of Goto_end r \<Rightarrow> [] | Next_stage ps \<Rightarrow> fst (?K ps))"
  have o': "opt_loop ?E' opts init_locals = (t0, Next_stage L)"
    using assms(1) by (simp add: max_bits_opt_loop)
  have p': "positional ?E' rest = Some (num, numbits)"
    using assms(2) by (simp add: max_bits_elsewhere)
  have r': "streams_and_ctx ?E' L"
    using assms(5) by (simp add: max_bits_elsewhere)
  have s: "stages E L num numbits =
             emit [Ev_bio_open_default (infile L) (informat L),
                   Ev_bio_open_owner (outfile L) (outformat L) (genkey L)]
               (and_then (generate E L num numbits) ?K)"
    using assms(3) by (simp add: stages_reached [OF assms(5)] and_then_assoc resolve_generate)
  have s': "stages ?E' L num numbits =
             emit [Ev_bio_open_default (infile L) (informat L),
                   Ev_bio_open_owner (outfile L) (outformat L) (genkey L)]
               (and_then ?g ?K)"
    using assms(3)
    by (simp add: stages_reached [OF r'] and_then_assoc resolve_generate max_bits_elsewhere)
  have a: "snd (dsaparam_main E opts rest) =
             ?t1 @ Ev_printf bio_err
                    (''Warning: It is not recommended to use more than %d bit for DSA keys.\<newline>'' @
                     ''         Your key size is %d! Larger key size may behave not as expected.\<newline>'')
                    [I (OPENSSL_DSA_MAX_MODULUS_BITS E), I numbits] # ?t2"
    by (simp add: main_unfold [OF assms(1,2)] s generate_warning [OF assms(4)] fst_and_then)
  have b: "Ev_paramgen_init \<in> set ?t2"
    using generate_starts [of ?E' L num numbits] by simp
  have c: "dsaparam_main ?E' opts rest = (fst (dsaparam_main E opts rest), ?t1 @ ?t2)"
    by (simp add: main_unfold [OF assms(1,2)] main_unfold [OF o' p'] s s'
        generate_warning [OF assms(4)] fst_and_then snd_and_then)
  from a b c show ?thesis by blast
qed

theorem ceiling_warning_non_fatal_witness:
  "opt_loop env_ok [] init_locals = ([], Next_stage init_locals) \<and>
   positional env_ok [''20000''] = Some (20000, 20000) \<and>
   OPENSSL_DSA_MAX_MODULUS_BITS env_ok = 10000 \<and>
   streams_and_ctx env_ok init_locals \<and>
   (\<exists>t1 t2.
      snd (dsaparam_main env_ok [] [''20000'']) =
        t1 @ Ev_printf bio_err
               (''Warning: It is not recommended to use more than %d bit for DSA keys.\<newline>'' @
                ''         Your key size is %d! Larger key size may behave not as expected.\<newline>'')
               [I 10000, I 20000] # t2 \<and>
      Ev_paramgen_init \<in> set t2 \<and>
      dsaparam_main (env_ok\<lparr>OPENSSL_DSA_MAX_MODULUS_BITS := 20000\<rparr>) [] [''20000''] =
        (fst (dsaparam_main env_ok [] [''20000'']), t1 @ t2)) \<and>
   fst (dsaparam_main env_ok [] [''20000'']) = 0"
proof -
  have o: "opt_loop env_ok [] init_locals = ([], Next_stage init_locals)"
    by simp
  have p: "positional env_ok [''20000''] = Some (20000, 20000)"
    by (simp add: positional_def env_ok_def)
  have m: "OPENSSL_DSA_MAX_MODULUS_BITS env_ok = 10000"
    by (simp add: env_ok_def)
  have b: "(20000::int) > 0" by simp
  have c: "(20000::int) > OPENSSL_DSA_MAX_MODULUS_BITS env_ok"
    by (simp add: m)
  have z: "fst (dsaparam_main env_ok [] [''20000'']) = 0"
    by (simp add: run_defs env_ok_def)
  from ceiling_warning_non_fatal [OF o p b c env_ok_reach] o p m env_ok_reach z
  show ?thesis by simp
qed

subsection \<open>The progress callback\<close>

text \<open>
  C8. For every invocation of the generation progress callback: with verbose mode off it
  does nothing and returns \<open>1\<close>; with verbose mode on it maps the progress signal to one
  character (\<open>0\<close>, \<open>1\<close>, \<open>2\<close>, \<open>3\<close> to \<open>.\<close>, \<open>+\<close>, \<open>*\<close> and newline, any other value to
  \<open>?\<close>), writes exactly that character to the stream stored in the context (the
  diagnostic stream) and flushes that stream right after the write.
\<close>

theorem gendsa_cb_spec:
  "gendsa_cb False ctx = (1, []) \<and>
   gendsa_cb True ctx =
     (1, [Ev_write (app_data ctx)
            [if keygen_info ctx = 0 then CHR ''.''
             else if keygen_info ctx = 1 then CHR ''+''
             else if keygen_info ctx = 2 then CHR ''*''
             else if keygen_info ctx = 3 then CHR 0x0A
             else CHR ''?''],
          Ev_flush (app_data ctx)])"
proof -
  have "keygen_info ctx < 0 \<or> keygen_info ctx = 0 \<or> keygen_info ctx = 1 \<or> keygen_info ctx = 2
        \<or> keygen_info ctx = 3 \<or> keygen_info ctx > 3" by arith
  then show ?thesis
    by (auto simp: gendsa_cb_def symbols_def Let_def)
qed

subsection \<open>The renderings\<close>

text \<open>
  C5, as amended. For every run with resolved parameters, the renderings are performed
  each under its own condition and in a fixed order: the text dump (\<open>-text\<close>), the source-code
  fragment (\<open>-C\<close>), the serialized parameters (unless \<open>-noout\<close>, or DER output together
  with \<open>-genkey\<close>), and the private key (\<open>-genkey\<close>, in a run that exits with \<open>0\<close>).
  The text dump and the serialized records are written to the configured output stream
  \<open>out\<close>; the source-code fragment is written to the standard output \<open>bio_out\<close>.
\<close>

theorem renderings_in_order:
  assumes "opt_loop E opts init_locals = (t0, Next_stage L)"
      and "positional E rest = Some (num, numbits)"
      and "streams_and_ctx E L"
      and "snd (resolve E L num numbits) = Next_stage (Some params)"
  shows "filter is_rendering (snd (dsaparam_main E opts rest)) =
           (if text_flag L then [Ev_print_params out_bio params] else []) @
           (if C_flag L then render_C params else []) @
           (if noout L \<or> (outformat L = FORMAT_ASN1 \<and> genkey L) then []
            else [if outformat L = FORMAT_ASN1 then Ev_i2d_KeyParams_bio out_bio params
                  else Ev_PEM_write_bio_Parameters out_bio params]) @
           (if genkey L \<and> fst (dsaparam_main E opts rest) = 0
            then [if outformat L = FORMAT_ASN1
                  then Ev_i2d_PrivateKey_bio out_bio (snd (EVP_PKEY_keygen E params))
                  else Ev_PEM_write_bio_PrivateKey out_bio (snd (EVP_PKEY_keygen E params))]
            else []) \<and>
         list_all (writes_on bio_out) (render_C params)"
proof -
  have t0: "fst (opt_loop E opts init_locals) = t0"
    using assms(1) by simp
  have n: "noout_final L = (noout L \<or> (outformat L = FORMAT_ASN1 \<and> genkey L))"
    by (auto simp: noout_final_def)
  have k: "(genkey L \<and> fst (dsaparam_main E opts rest) = 0) =
           (snd (render E L params) = Next_stage () \<and>
            genkey L \<and> snd (derive E L params) = Next_stage ())"
    using key_written_iff [OF assms] by auto
  have c: "list_all (writes_on bio_out) (render_C params)"
    unfolding list_all_iff by (auto dest: render_C_events simp: writes_on_def)
  have "filter is_rendering (snd (dsaparam_main E opts rest)) =
          filter is_rendering (fst (render E L params)) @
          (case snd (render E L params) of
             Goto_end r \<Rightarrow> []
           | Next_stage u \<Rightarrow> filter is_rendering (fst (derive E L params)))"
    using opt_loop_no_rendering [of E opts init_locals]
    by (simp add: main_unfold [OF assms(1,2)] t0 fst_stages_resolved [OF assms(3,4)]
        filter_rendering_resolve is_rendering_def split: step.splits)
  also have "\<dots> =
          filter is_rendering (fst (render E L params)) @
          (if snd (render E L params) = Next_stage () \<and>
              genkey L \<and> snd (derive E L params) = Next_stage ()
           then [if outformat L = FORMAT_ASN1
                 then Ev_i2d_PrivateKey_bio out_bio (snd (EVP_PKEY_keygen E params))
                 else Ev_PEM_write_bio_PrivateKey out_bio (snd (EVP_PKEY_keygen E params))]
           else [])"
    by (simp add: filter_rendering_derive split: step.splits)
  finally show ?thesis
    using c by (simp only: filter_rendering_render n k) simp
qed

theorem renderings_in_order_witness:
  "opt_loop env_ok [OPT_TEXT, OPT_C, OPT_GENKEY] init_locals =
     ([], Next_stage (init_locals\<lparr>text_flag := True, C_flag := True, genkey := True\<rparr>)) \<and>
   positional env_ok [] = Some (0, -1) \<and>
   snd (resolve env_ok (init_locals\<lparr>text_flag := True, C_flag := True, genkey := True\<rparr>) 0 (-1)) =
     Next_stage (Some toy_params) \<and>
   fst (dsaparam_main env_ok [OPT_TEXT, OPT_C, OPT_GENKEY] []) = 0 \<and>
   filter is_rendering (snd (dsaparam_main env_ok [OPT_TEXT, OPT_C, OPT_GENKEY] [])) =
     Ev_print_params out_bio toy_params # render_C toy_params @
     [Ev_PEM_write_bio_Parameters out_bio toy_params,
      Ev_PEM_write_bio_PrivateKey out_bio (Some toy_key)] \<and>
   list_all (writes_on bio_out) (render_C toy_params)"
proof -
  let ?L = "init_locals\<lparr>text_flag := True, C_flag := True, genkey := True\<rparr>"
  have o: "opt_loop env_ok [OPT_TEXT, OPT_C, OPT_GENKEY] init_locals = ([], Next_stage ?L)"
    by simp
  have p: "positional env_ok [] = Some (0, -1)"
    by (simp add: positional_def)
  have r: "snd (resolve env_ok ?L 0 (-1)) = Next_stage (Some toy_params)"
    by (simp add: resolve_def init_locals_def env_ok_def)
  have z: "fst (dsaparam_main env_ok [OPT_TEXT, OPT_C, OPT_GENKEY] []) = 0"
    by (simp add: run_defs env_ok_def)
  have k: "EVP_PKEY_keygen env_ok toy_params = (1, Some toy_key)"
    by (simp add: env_ok_def)
  from renderings_in_order [OF o p env_ok_reach r] o p r z
  show ?thesis by (simp add: init_locals_def k)
qed

text \<open>
  C5, as the spec states it, fails: with \<open>-C -out p.c\<close> the renderings are not all on
  \<open>out\<close>; the first of them is the head of the source-code fragment, on \<open>bio_out\<close>.
\<close>

theorem renderings_in_order_counterexample:
  "\<not> list_all (writes_on out_bio)
       (filter is_rendering (snd (dsaparam_main env_ok [OPT_C, OPT_OUT ''p.c''] []))) \<and>
   hd (filter is_rendering (snd (dsaparam_main env_ok [OPT_C, OPT_OUT ''p.c''] []))) =
     Ev_printf bio_out ''static DSA *get_dsa%d(void)\<newline>{\<newline>'' [I 5]"
proof -
  have tr: "snd (dsaparam_main env_ok [OPT_C, OPT_OUT ''p.c''] []) =
          [Ev_bio_open_default None FORMAT_PEM,
           Ev_bio_open_owner (Some ''p.c'') FORMAT_PEM False,
           Ev_PEM_read_bio_Parameters in_bio] @
          render_C toy_params @ [Ev_PEM_write_bio_Parameters out_bio toy_params]"
    by (simp add: run_defs env_ok_def)
  show ?thesis
    unfolding tr by (subst (1 2) render_C_toy) (simp add: is_rendering_def writes_on_def)
qed

text \<open>
  C2. For every run that exits with \<open>0\<close> in which key derivation is requested and the
  output format is DER, the serialized-parameter output is suppressed and exactly one
  record is serialised onto the output stream: the private key that \<open>EVP_PKEY_keygen\<close>
  derived from the resolved parameters, written by \<open>i2d_PrivateKey_bio\<close> on \<open>out\<close>.
\<close>

theorem genkey_der_single_record:
  assumes "opt_loop E opts init_locals = (t0, Next_stage L)"
      and "genkey L" and "outformat L = FORMAT_ASN1"
      and "dsaparam_main E opts rest = (0, tr)"
  shows "\<exists>num numbits params.
           positional E rest = Some (num, numbits) \<and>
           params_source E L num numbits = Some params \<and>
           filter is_record_write tr =
             [Ev_i2d_PrivateKey_bio out_bio (snd (EVP_PKEY_keygen E params))]"
proof -
  obtain num numbits where p: "positional E rest = Some (num, numbits)"
    using assms(1,4) by (cases "positional E rest") (auto simp: dsaparam_main_def)
  have t0: "fst (opt_loop E opts init_locals) = t0"
    using assms(1) by simp
  have ok: "checks_passed E L num numbits"
    using exit_code [OF assms(1) p] assms(4) by (simp split: if_splits)
  then have r: "streams_and_ctx E L"
    by (simp add: checks_passed_def)
  from ok obtain params where s: "params_source E L num numbits = Some params"
    by (auto simp: checks_passed_def split: option.splits)
  have res: "snd (resolve E L num numbits) = Next_stage (Some params)"
    using ok s by (auto simp: snd_resolve checks_passed_def)
  have z: "fst (dsaparam_main E opts rest) = 0"
    using assms(4) by simp
  have d: "snd (render E L params) = Next_stage ()" "snd (derive E L params) = Next_stage ()"
    using key_written_iff [OF assms(1) p r res] z by simp_all
  have n: "noout_final L"
    using assms(2,3) by (simp add: noout_final_def)
  have "tr = snd (dsaparam_main E opts rest)"
    using assms(4) by simp
  then have "filter is_record_write tr =
          [Ev_i2d_PrivateKey_bio out_bio (snd (EVP_PKEY_keygen E params))]"
    using opt_loop_no_record [of E opts init_locals]
    by (simp add: main_unfold [OF assms(1) p] t0 fst_stages_resolved [OF r res]
        filter_record_resolve filter_record_render filter_record_derive d n assms(2,3))
  with p s show ?thesis by blast
qed

theorem genkey_der_single_record_witness:
  "opt_loop env_ok [OPT_GENKEY, OPT_OUTFORM ''DER'', OPT_TEXT] init_locals =
     ([], Next_stage (init_locals\<lparr>genkey := True, outformat := FORMAT_ASN1, text_flag := True\<rparr>)) \<and>
   fst (dsaparam_main env_ok [OPT_GENKEY, OPT_OUTFORM ''DER'', OPT_TEXT] []) = 0 \<and>
   filter is_record_write (snd (dsaparam_main env_ok [OPT_GENKEY, OPT_OUTFORM ''DER'', OPT_TEXT] [])) =
     [Ev_i2d_PrivateKey_bio out_bio (Some toy_key)]"
proof -
  let ?L = "init_locals\<lparr>genkey := True, outformat := FORMAT_ASN1, text_flag := True\<rparr>"
  let ?opts = "[OPT_GENKEY, OPT_OUTFORM ''DER'', OPT_TEXT]"
  have o: "opt_loop env_ok ?opts init_locals = ([], Next_stage ?L)"
    by (simp add: env_ok_def)
  have p: "positional env_ok [] = Some (0, -1)"
    by (simp add: positional_def)
  have z: "fst (dsaparam_main env_ok ?opts []) = 0"
    by (simp add: run_defs env_ok_def)
  have g: "genkey ?L" and f: "outformat ?L = FORMAT_ASN1"
    by simp_all
  have m: "dsaparam_main env_ok ?opts [] = (0, snd (dsaparam_main env_ok ?opts []))"
    using z by (simp add: prod_eq_iff)
  have k: "EVP_PKEY_keygen env_ok ps = (1, Some toy_key)" for ps
    by (simp add: env_ok_def)
  from genkey_der_single_record [OF o g f m] o z
  show ?thesis by (auto simp: k)
qed




subsection \<open>The exit code\<close>

text \<open>
  C3, as amended. For every run that gets past the options: if every requested stage
  succeeded the exit code is \<open>0\<close>; an exit code \<open>0\<close> means that both streams were opened,
  the context was allocated, the parameters were resolved, the serialized-parameter write
  (when not suppressed) did not report \<open>0\<close> and the key derivation (when requested) got
  its context and no status \<open>0\<close>; any other run exits with \<open>1\<close> and, once both streams are
  open, ends with a diagnostic message and the library's error text on \<open>bio_err\<close>. The
  status of the text dump is never read: whatever it is, the run is the same.
\<close>

theorem exit_code_contract:
  assumes "opt_loop E opts init_locals = (t0, Next_stage L)"
      and "positional E rest = Some (num, numbits)"
  shows "(requested_stages_succeed E L num numbits \<longrightarrow> fst (dsaparam_main E opts rest) = 0) \<and>
         (fst (dsaparam_main E opts rest) = 0 \<longrightarrow> checks_passed E L num numbits) \<and>
         (fst (dsaparam_main E opts rest) \<noteq> 0 \<longrightarrow>
            fst (dsaparam_main E opts rest) = 1 \<and>
            (bio_open_default E (infile L) (informat L) \<and>
             bio_open_owner E (outfile L) (outformat L) (genkey L) \<longrightarrow>
               ends_with_diagnostic (snd (dsaparam_main E opts rest)))) \<and>
         dsaparam_main (E\<lparr>EVP_PKEY_print_params := s\<rparr>) opts rest = dsaparam_main E opts rest"
proof -
  note ec = exit_code [OF assms]
  have a: "requested_stages_succeed E L num numbits \<longrightarrow> fst (dsaparam_main E opts rest) = 0"
    using requested_implies_checked [of E L num numbits] by (simp add: ec)
  have b: "fst (dsaparam_main E opts rest) = 0 \<longrightarrow> checks_passed E L num numbits"
    by (simp add: ec)
  have c: "fst (dsaparam_main E opts rest) \<noteq> 0 \<longrightarrow> fst (dsaparam_main E opts rest) = 1"
    by (simp add: ec)
  have d: "ends_with_diagnostic (snd (dsaparam_main E opts rest))"
    if "fst (dsaparam_main E opts rest) \<noteq> 0"
       "bio_open_default E (infile L) (informat L)"
       "bio_open_owner E (outfile L) (outformat L) (genkey L)"
  proof -
    from that(1) have "snd (stages E L num numbits) = Goto_end 1"
      by (simp add: ec snd_stages split: if_splits)
    from stages_loud [OF that(2,3) this] show ?thesis
      by (simp add: main_unfold [OF assms] ends_append)
  qed
  from a b c d text_status_unread show ?thesis by blast
qed

theorem exit_code_contract_witness:
  "opt_loop env_ok [OPT_GENKEY] init_locals =
     ([], Next_stage (init_locals\<lparr>genkey := True\<rparr>)) \<and>
   positional env_ok [''512''] = Some (512, 512) \<and>
   requested_stages_succeed env_ok (init_locals\<lparr>genkey := True\<rparr>) 512 512 \<and>
   checks_passed env_ok (init_locals\<lparr>genkey := True\<rparr>) 512 512 \<and>
   fst (dsaparam_main env_ok [OPT_GENKEY] [''512'']) = 0 \<and>
   positional env_bad_input [] = Some (0, -1) \<and>
   opt_loop env_bad_input [OPT_GENKEY] init_locals =
     ([], Next_stage (init_locals\<lparr>genkey := True\<rparr>)) \<and>
   fst (dsaparam_main env_bad_input [OPT_GENKEY] []) = 1 \<and>
   ends_with_diagnostic (snd (dsaparam_main env_bad_input [OPT_GENKEY] []))"
proof -
  let ?L = "init_locals\<lparr>genkey := True\<rparr>"
  have o: "opt_loop env_ok [OPT_GENKEY] init_locals = ([], Next_stage ?L)"
    by simp
  have p: "positional env_ok [''512''] = Some (512, 512)"
    by (simp add: positional_def env_ok_def)
  have q: "requested_stages_succeed env_ok ?L 512 512"
    by (simp add: requested_stages_succeed_def streams_and_ctx_def params_source_def
        params_write_status_def key_write_status_def noout_final_def init_locals_def env_ok_def)
  have o': "opt_loop env_bad_input [OPT_GENKEY] init_locals = ([], Next_stage ?L)"
    by simp
  have p': "positional env_bad_input [] = Some (0, -1)"
    by (simp add: positional_def)
  have f: "fst (dsaparam_main env_bad_input [OPT_GENKEY] []) = 1"
    by (simp add: run_defs env_bad_input_def env_ok_def)
  have s: "bio_open_default env_bad_input (infile ?L) (informat ?L)"
          "bio_open_owner env_bad_input (outfile ?L) (outformat ?L) (genkey ?L)"
    by (simp_all add: env_bad_input_def env_ok_def)
  from exit_code_contract [OF o p] exit_code_contract [OF o' p'] o p q o' p' f s
  show ?thesis by simp
qed

text \<open>
  C3, as the spec states it, fails: with \<open>-text\<close> and a text dump that reports failure
  the requested stages did not all succeed, yet the run writes the parameters and exits
  with \<open>0\<close>, without a diagnostic.
\<close>

theorem exit_code_counterexample:
  "opt_loop env_text_fails [OPT_TEXT] init_locals =
     ([], Next_stage (init_locals\<lparr>text_flag := True\<rparr>)) \<and>
   positional env_text_fails [] = Some (0, -1) \<and>
   EVP_PKEY_print_params env_text_fails toy_params = 0 \<and>
   \<not> requested_stages_succeed env_text_fails (init_locals\<lparr>text_flag := True\<rparr>) 0 (-1) \<and>
   dsaparam_main env_text_fails [OPT_TEXT] [] =
     (0, [Ev_bio_open_default None FORMAT_PEM,
          Ev_bio_open_owner None FORMAT_PEM False,
          Ev_PEM_read_bio_Parameters in_bio,
          Ev_print_params out_bio toy_params,
          Ev_PEM_write_bio_Parameters out_bio toy_params])"
  by (simp add: run_defs env_text_fails_def env_ok_def requested_stages_succeed_def
      params_source_def)

end
